theory Spec2Isabelle
  imports Main "HOL-Library.Word" "HOL-Library.Sublist"
begin

section \<open>The supervisor's view of the machine\<close>

text \<open>
  \<^verbatim>\<open>Computer.cpp\<close> is one class, \<^verbatim>\<open>ComputerVM\<close>, a signal handler and \<^verbatim>\<open>main\<close>.
  Its methods read and write the file system, print to the console, run shell commands,
  fork children, and signal and reap them. Each method becomes a function that takes the
  object and the world and returns its result with the updated world.

  The world holds what the program can observe or change: the file system, the children
  it has forked and not yet reaped, the number of times it has called \<^verbatim>\<open>fork\<close>, and
  the sequence of everything it has done so far. Nothing but the program and the disk
  tool it runs changes the file system meanwhile.
\<close>

type_synonym path = string
type_synonym byte = "8 word"
type_synonym pid = int

datatype node = RegFile "byte list" | Directory "string list"

type_synonym filesystem = "path \<rightharpoonup> node"

datatype signal = SIGINT | SIGTERM

datatype event =
    Stdout string
  | Stderr string
  | System string
  | Fork pid
  | Execvp "string list"
  | Execl string "string list"
  | Sleep nat
  | Kill pid signal
  | Waitpid pid

record world =
  fsys :: filesystem
  children :: "pid list"
  nforks :: nat
  trace :: "event list"

text \<open>
  What the collaborators answer. \<open>system_status\<close> is the value \<^verbatim>\<open>system(cmd)\<close> returns.
  \<open>qemu_img_leaves\<close> is what the disk tool leaves at the image path it was asked to
  create (\<open>None\<close>: nothing); the tool touches no other path, and its exit status is
  independent of what it leaves. \<open>ofstream_leaves p bs\<close> is what is at \<open>p\<close> once the program
  has opened an \<^verbatim>\<open>ofstream\<close> on it, written \<open>bs\<close> and closed it: \<open>None\<close> when the file
  could not be opened, so that none is created, and otherwise the bytes that reached the
  file, all of \<open>bs\<close> or less when the write fell short. The program never tests the
  stream, so it learns of neither. \<open>fork_ret\<close> is the value the n-th call of \<^verbatim>\<open>fork()\<close>
  returns in the calling process. \<open>error_what\<close> is the text of a
  \<^verbatim>\<open>filesystem_error\<close>.
\<close>

record env =
  system_status :: "string \<Rightarrow> int"
  qemu_img_leaves :: "byte list option"
  ofstream_leaves :: "path \<Rightarrow> byte list \<Rightarrow> byte list option"
  fork_ret :: "nat \<Rightarrow> pid"
  error_what :: string

text \<open>
  A method that forks does not return in the child: the child replaces its image
  (\<^verbatim>\<open>execvp\<close>, \<^verbatim>\<open>execl\<close>) or exits with status 1. \<open>Gone\<close> is that outcome.
\<close>

datatype 'a ctl = Ret 'a | Gone

record vm =
  diskPath :: string
  romPath :: string
  firmwarePath :: string
  noVNCPath :: string
  useVNC :: bool
  qemuPid :: pid
  websockifyPid :: pid

definition ComputerVM :: vm where
  "ComputerVM =
     \<lparr> diskPath = ''./devices/disk/disk.qcow2'',
       romPath = ''./devices/rom'',
       firmwarePath = ''./boot/firmware/OVMF_CODE.fd'',
       noVNCPath = ''./libraries/noVNC'',
       useVNC = True,
       qemuPid = - 1,
       websockifyPid = - 1 \<rparr>"

definition setVNCMode :: "bool \<Rightarrow> vm \<Rightarrow> vm" where
  "setVNCMode enabled m = m\<lparr>useVNC := enabled\<rparr>"

subsection \<open>Primitives\<close>

definition emit :: "event \<Rightarrow> world \<Rightarrow> world" where
  "emit ev w = w\<lparr>trace := trace w @ [ev]\<rparr>"

definition printLog :: "string \<Rightarrow> string \<Rightarrow> world \<Rightarrow> world" where
  "printLog level message w = emit (Stdout (''['' @ level @ ''] '' @ message)) w"

definition printDebug :: "string \<Rightarrow> world \<Rightarrow> world" where
  "printDebug message w = emit (Stdout (''[DEBUG] '' @ message)) w"

definition fs_exists :: "world \<Rightarrow> path \<Rightarrow> bool" where
  "fs_exists w p = (fsys w p \<noteq> None)"

definition sleep :: "nat \<Rightarrow> world \<Rightarrow> world" where
  "sleep n w = emit (Sleep n) w"

text \<open>
  \<^verbatim>\<open>kill(pid, SIGTERM)\<close> asks the process to terminate; \<^verbatim>\<open>waitpid(pid, nullptr, 0)\<close>
  blocks until it has and reaps it, after which it is no child any more. Waiting for a
  pid that is no child changes nothing.
\<close>

definition kill :: "pid \<Rightarrow> signal \<Rightarrow> world \<Rightarrow> world" where
  "kill p s w = emit (Kill p s) w"

definition waitpid :: "pid \<Rightarrow> world \<Rightarrow> world" where
  "waitpid p w = emit (Waitpid p) (w\<lparr>children := removeAll p (children w)\<rparr>)"

definition fork :: "env \<Rightarrow> world \<Rightarrow> pid \<times> world" where
  "fork e w =
     (let p = fork_ret e (nforks w)
      in (p, emit (Fork p)
               (w\<lparr>nforks := Suc (nforks w),
                  children := (if 0 < p then children w @ [p] else children w)\<rparr>)))"

definition system :: "env \<Rightarrow> string \<Rightarrow> world \<Rightarrow> int \<times> world" where
  "system e cmd w = (system_status e cmd, emit (System cmd) w)"

subsection \<open>The file-system library\<close>

text \<open>
  \<^verbatim>\<open>path::extension()\<close> of the C++ standard library: the part of the file name from its
  rightmost period on; empty when the name is \<^verbatim>\<open>.\<close> or \<^verbatim>\<open>..\<close>, has no period, or has its
  only period in front (a hidden file).
\<close>

fun rfind :: "char \<Rightarrow> string \<Rightarrow> nat option" where
  "rfind c [] = None"
| "rfind c (x # xs) =
     (case rfind c xs of
        Some i \<Rightarrow> Some (Suc i)
      | None \<Rightarrow> if x = c then Some 0 else None)"

definition filename :: "path \<Rightarrow> string" where
  "filename p = (case rfind CHR ''/'' p of None \<Rightarrow> p | Some i \<Rightarrow> drop (Suc i) p)"

definition extension :: "path \<Rightarrow> string" where
  "extension p =
     (let f = filename p
      in if f = ''.'' \<or> f = ''..'' then []
         else case rfind CHR ''.'' f of
                None \<Rightarrow> []
              | Some i \<Rightarrow> if i = 0 then [] else drop i f)"

definition path_join :: "path \<Rightarrow> string \<Rightarrow> path" where
  "path_join d n =
     (if d = [] then n
      else if last d = CHR ''/'' then d @ n
      else d @ ''/'' @ n)"

text \<open>
  \<^verbatim>\<open>directory_iterator(d)\<close> yields the entries of \<open>d\<close> as paths below \<open>d\<close>, in the order
  the directory gives them; it throws (\<open>None\<close>) when \<open>d\<close> is not a directory.
\<close>

definition directory_iterator :: "world \<Rightarrow> path \<Rightarrow> path list option" where
  "directory_iterator w d =
     (case fsys w d of
        Some (Directory names) \<Rightarrow> Some (map (path_join d) names)
      | _ \<Rightarrow> None)"

text \<open>
  \<^verbatim>\<open>create_directories(p)\<close> goes through the elements of \<open>p\<close> from the top: the
  directories above \<open>p\<close> and \<open>p\<close> itself, the current directory apart, which is always
  there. It leaves an existing directory alone, creates a missing one, and throws (the
  result \<open>False\<close>) at an element that is something else, keeping what it has created
  until then. The listing of the directory above a new one is left as it is: the program
  lists the media directory only, and creates nothing in it.
\<close>

fun elements_from :: "string \<Rightarrow> string \<Rightarrow> path list" where
  "elements_from acc [] = [acc]"
| "elements_from acc (c # cs) =
     (if c = CHR ''/'' then acc # elements_from (acc @ [c]) cs
      else elements_from (acc @ [c]) cs)"

definition path_elements :: "path \<Rightarrow> path list" where
  "path_elements p = filter (\<lambda>q. q \<noteq> [] \<and> q \<noteq> ''.'') (elements_from [] p)"

fun mkdirs :: "path list \<Rightarrow> world \<Rightarrow> bool \<times> world" where
  "mkdirs [] w = (True, w)"
| "mkdirs (q # qs) w =
     (case fsys w q of
        None \<Rightarrow> mkdirs qs (w\<lparr>fsys := (fsys w)(q \<mapsto> Directory [])\<rparr>)
      | Some (Directory _) \<Rightarrow> mkdirs qs w
      | Some (RegFile _) \<Rightarrow> (False, w))"

definition create_directories :: "path \<Rightarrow> world \<Rightarrow> bool \<times> world" where
  "create_directories p w = mkdirs (path_elements p) w"

text \<open>
  Opening an \<^verbatim>\<open>ofstream\<close> on a path, writing the bytes and closing it, with no look at
  the state of the stream.
\<close>

definition write_file :: "env \<Rightarrow> path \<Rightarrow> byte list \<Rightarrow> world \<Rightarrow> world" where
  "write_file e p bs w =
     (case ofstream_leaves e p bs of
        None \<Rightarrow> w
      | Some written \<Rightarrow> w\<lparr>fsys := (fsys w)(p \<mapsto> RegFile written)\<rparr>)"

text \<open>What the disk tool does to the file system: it leaves a file at the image path.\<close>

definition put_file :: "path \<Rightarrow> byte list \<Rightarrow> world \<Rightarrow> world" where
  "put_file p bs w = w\<lparr>fsys := (fsys w)(p \<mapsto> RegFile bs)\<rparr>"

subsection \<open>Probing\<close>

definition checkFile :: "path \<Rightarrow> string \<Rightarrow> world \<Rightarrow> bool \<times> world" where
  "checkFile p name w =
     (if fs_exists w p then (True, printDebug (name @ '' available.. Yes!'') w)
      else (False, printDebug (name @ '' available.. No'') w))"

fun first_iso :: "path list \<Rightarrow> string" where
  "first_iso [] = []"
| "first_iso (entry # rest) =
     (if extension entry = ''.iso'' then entry else first_iso rest)"

definition findISO :: "env \<Rightarrow> vm \<Rightarrow> world \<Rightarrow> string \<times> world" where
  "findISO e m w0 =
     (let w = printDebug ''Checking for ISO files...'' w0
      in case directory_iterator w (romPath m) of
           Some entries \<Rightarrow> (first_iso entries, w)
         | None \<Rightarrow>
             ([], printDebug (''Error checking ROM directory: '' @ error_what e) w))"

fun try_create :: "path list \<Rightarrow> world \<Rightarrow> bool \<times> world" where
  "try_create [] w = (True, w)"
| "try_create (p # ps) w =
     (case create_directories p w of
        (False, w') \<Rightarrow> (False, w')
      | (True, w') \<Rightarrow> try_create ps w')"

definition standard_dirs :: "path list" where
  "standard_dirs =
     [''./devices/disk'', ''./devices/rom'', ''./boot/firmware'', ''./libraries'']"

definition createDirectories :: "env \<Rightarrow> world \<Rightarrow> world" where
  "createDirectories e w0 =
     (case try_create standard_dirs w0 of
        (True, w) \<Rightarrow> w
      | (False, w) \<Rightarrow>
          printLog ''ERROR'' (''Failed to create directories: '' @ error_what e) w)"

definition createDefaultDisk :: "env \<Rightarrow> vm \<Rightarrow> world \<Rightarrow> bool \<times> world" where
  "createDefaultDisk e m w0 =
     (if \<not> fs_exists w0 (diskPath m) then
        let w = printLog ''INFO'' ''Creating default 20GB disk...'' w0;
            cmd = ''qemu-img create -f qcow2 '' @ [CHR 0x22] @ diskPath m @ [CHR 0x22] @ '' 20G'';
            (result, w) = system e cmd w;
            w = (case qemu_img_leaves e of
                        None \<Rightarrow> w
                      | Some bs \<Rightarrow> put_file (diskPath m) bs w)
        in if result = 0
           then (True, printLog ''INFO'' ''Default disk created successfully!'' w)
           else (False, printLog ''ERROR'' ''Failed to create default disk!'' w)
      else (True, w0))"

subsection \<open>The emulator's command line\<close>

definition push_back :: "'a list \<Rightarrow> 'a \<Rightarrow> 'a list" where
  "push_back v x = v @ [x]"

definition varsPath :: path where
  "varsPath = ''./boot/firmware/OVMF_VARS.fd''"

definition buildQEMUCommand :: "env \<Rightarrow> vm \<Rightarrow> world \<Rightarrow> string list \<times> world" where
  "buildQEMUCommand e m w0 =
     (let cmd = [];
          cmd = push_back cmd ''qemu-system-x86_64'';
          cmd = push_back cmd ''-enable-kvm'';
          cmd = push_back cmd ''-cpu'';
          cmd = push_back cmd ''host'';
          cmd = push_back cmd ''-smp'';
          cmd = push_back cmd ''4'';
          cmd = push_back cmd ''-m'';
          cmd = push_back cmd ''4G'';
          cmd = push_back cmd ''-vga'';
          cmd = push_back cmd ''virtio'';
          cmd = (if useVNC m then
                   let cmd = push_back cmd ''-display'';
                       cmd = push_back cmd ''none'';
                       cmd = push_back cmd ''-vnc'';
                       cmd = push_back cmd '':1''
                   in cmd
                 else
                   let cmd = push_back cmd ''-display'';
                       cmd = push_back cmd ''gtk,full-screen=on''
                   in cmd);
          (cmd, w) =
             (if fs_exists w0 (firmwarePath m) then
                let cmd = push_back cmd ''-drive'';
                    cmd = push_back cmd
                            (''if=pflash,format=raw,readonly=on,file='' @ firmwarePath m);
                    w = (if \<not> fs_exists w0 varsPath then
                           let w = printLog ''INFO'' ''Creating OVMF VARS file...'' w0;
                               emptyVars = replicate (64 * 1024) (0 :: byte)
                           in write_file e varsPath emptyVars w
                         else w0);
                    cmd = push_back cmd ''-drive'';
                    cmd = push_back cmd (''if=pflash,format=raw,file='' @ varsPath)
                in (cmd, w)
              else (cmd, w0));
          cmd = (if fs_exists w (diskPath m) then
                   let cmd = push_back cmd ''-drive'';
                       cmd = push_back cmd
                               (''file='' @ diskPath m @ '',format=qcow2,if=virtio'')
                   in cmd
                 else cmd);
          (isoFile, w) = findISO e m w;
          (cmd, w) =
             (if isoFile \<noteq> [] then
                let cmd = push_back cmd ''-cdrom'';
                    cmd = push_back cmd isoFile;
                    w = printLog ''INFO'' (''ISO found: '' @ filename isoFile) w
                in (cmd, w)
              else (cmd, w));
          cmd = push_back cmd ''-audiodev'';
          cmd = push_back cmd ''alsa,id=audio0'';
          cmd = push_back cmd ''-device'';
          cmd = push_back cmd ''intel-hda'';
          cmd = push_back cmd ''-device'';
          cmd = push_back cmd ''hda-duplex,audiodev=audio0'';
          cmd = push_back cmd ''-netdev'';
          cmd = push_back cmd ''user,id=net0'';
          cmd = push_back cmd ''-device'';
          cmd = push_back cmd ''virtio-net-pci,netdev=net0'';
          cmd = push_back cmd ''-device'';
          cmd = push_back cmd ''usb-ehci'';
          cmd = push_back cmd ''-device'';
          cmd = push_back cmd ''usb-tablet'';
          cmd = push_back cmd ''-rtc'';
          cmd = push_back cmd ''base=localtime,clock=host''
      in (cmd, w))"

text \<open>
  The blocks of \<^verbatim>\<open>buildQEMUCommand\<close>, one for each commented section of the source, each
  taking the command built so far. They are the same statements as above, cut at the
  comments; \<open>buildQEMUCommand\<close> is shown below to be their composition.
\<close>

definition cmd_basics :: "string list \<Rightarrow> string list" where
  "cmd_basics cmd0 =
     (let cmd = push_back cmd0 ''qemu-system-x86_64'';
          cmd = push_back cmd ''-enable-kvm'';
          cmd = push_back cmd ''-cpu'';
          cmd = push_back cmd ''host'';
          cmd = push_back cmd ''-smp'';
          cmd = push_back cmd ''4'';
          cmd = push_back cmd ''-m'';
          cmd = push_back cmd ''4G''
      in cmd)"

definition cmd_graphics :: "string list \<Rightarrow> string list" where
  "cmd_graphics cmd0 =
     (let cmd = push_back cmd0 ''-vga'';
          cmd = push_back cmd ''virtio''
      in cmd)"

definition cmd_display :: "vm \<Rightarrow> string list \<Rightarrow> string list" where
  "cmd_display m cmd =
     (if useVNC m then
        let cmd = push_back cmd ''-display'';
            cmd = push_back cmd ''none'';
            cmd = push_back cmd ''-vnc'';
            cmd = push_back cmd '':1''
        in cmd
      else
        let cmd = push_back cmd ''-display'';
            cmd = push_back cmd ''gtk,full-screen=on''
        in cmd)"

definition cmd_firmware ::
  "env \<Rightarrow> vm \<Rightarrow> string list \<Rightarrow> world \<Rightarrow> string list \<times> world" where
  "cmd_firmware e m cmd w0 =
     (if fs_exists w0 (firmwarePath m) then
        let cmd = push_back cmd ''-drive'';
            cmd = push_back cmd
                    (''if=pflash,format=raw,readonly=on,file='' @ firmwarePath m);
            w = (if \<not> fs_exists w0 varsPath then
                   let w = printLog ''INFO'' ''Creating OVMF VARS file...'' w0;
                       emptyVars = replicate (64 * 1024) (0 :: byte)
                   in write_file e varsPath emptyVars w
                 else w0);
            cmd = push_back cmd ''-drive'';
            cmd = push_back cmd (''if=pflash,format=raw,file='' @ varsPath)
        in (cmd, w)
      else (cmd, w0))"

definition cmd_disk :: "vm \<Rightarrow> world \<Rightarrow> string list \<Rightarrow> string list" where
  "cmd_disk m w cmd =
     (if fs_exists w (diskPath m) then
        let cmd = push_back cmd ''-drive'';
            cmd = push_back cmd (''file='' @ diskPath m @ '',format=qcow2,if=virtio'')
        in cmd
      else cmd)"

definition cmd_iso :: "env \<Rightarrow> vm \<Rightarrow> string list \<Rightarrow> world \<Rightarrow> string list \<times> world" where
  "cmd_iso e m cmd w0 =
     (let (isoFile, w) = findISO e m w0
      in if isoFile \<noteq> [] then
           let cmd = push_back cmd ''-cdrom'';
               cmd = push_back cmd isoFile;
               w = printLog ''INFO'' (''ISO found: '' @ filename isoFile) w
           in (cmd, w)
         else (cmd, w))"

definition cmd_audio :: "string list \<Rightarrow> string list" where
  "cmd_audio cmd0 =
     (let cmd = push_back cmd0 ''-audiodev'';
          cmd = push_back cmd ''alsa,id=audio0'';
          cmd = push_back cmd ''-device'';
          cmd = push_back cmd ''intel-hda'';
          cmd = push_back cmd ''-device'';
          cmd = push_back cmd ''hda-duplex,audiodev=audio0''
      in cmd)"

definition cmd_network :: "string list \<Rightarrow> string list" where
  "cmd_network cmd0 =
     (let cmd = push_back cmd0 ''-netdev'';
          cmd = push_back cmd ''user,id=net0'';
          cmd = push_back cmd ''-device'';
          cmd = push_back cmd ''virtio-net-pci,netdev=net0''
      in cmd)"

definition cmd_usb :: "string list \<Rightarrow> string list" where
  "cmd_usb cmd0 =
     (let cmd = push_back cmd0 ''-device'';
          cmd = push_back cmd ''usb-ehci'';
          cmd = push_back cmd ''-device'';
          cmd = push_back cmd ''usb-tablet''
      in cmd)"

definition cmd_rtc :: "string list \<Rightarrow> string list" where
  "cmd_rtc cmd0 =
     (let cmd = push_back cmd0 ''-rtc'';
          cmd = push_back cmd ''base=localtime,clock=host''
      in cmd)"

subsection \<open>Launching the two children\<close>

definition startWebsockify :: "env \<Rightarrow> vm \<Rightarrow> world \<Rightarrow> bool ctl \<times> vm \<times> world" where
  "startWebsockify e m w0 =
     (if \<not> useVNC m then (Ret True, m, w0)
      else
        let w = printLog ''INFO'' ''Starting websockify for noVNC...'' w0
        in if \<not> fs_exists w (noVNCPath m)
           then (Ret False, m, printLog ''ERROR'' ''noVNC directory not found!'' w)
           else
             let (p, w) = fork e w
             in if p = 0 then
                  let cmd = ''websockify --web='' @ noVNCPath m @ '' 8080 localhost:5901''
                  in (Gone, m, emit (Execl ''/bin/sh'' [''sh'', ''-c'', cmd]) w)
                else if 0 < p then
                  (Ret True, m\<lparr>websockifyPid := p\<rparr>, sleep 2 w)
                else
                  (Ret False, m,
                   printLog ''ERROR'' ''Failed to fork websockify process!'' w))"

definition startQEMU :: "env \<Rightarrow> vm \<Rightarrow> world \<Rightarrow> bool ctl \<times> vm \<times> world" where
  "startQEMU e m w0 =
     (let w = printLog ''INFO'' ''Starting QEMU virtual machine...'' w0;
          (cmd, w) = buildQEMUCommand e m w;
          w = printDebug ''QEMU command:'' w;
          fullCmd = foldl (\<lambda>acc arg. acc @ arg @ '' '') [] cmd;
          w = printDebug fullCmd w;
          (p, w) = fork e w
      in if p = 0 then (Gone, m, emit (Execvp cmd) w)
         else if 0 < p then (Ret True, m\<lparr>qemuPid := p\<rparr>, sleep 3 w)
         else (Ret False, m, printLog ''ERROR'' ''Failed to fork QEMU process!'' w))"

subsection \<open>Teardown\<close>

definition cleanup :: "vm \<Rightarrow> world \<Rightarrow> world" where
  "cleanup m w0 =
     (let w = (if qemuPid m \<noteq> - 1
               then waitpid (qemuPid m) (kill (qemuPid m) SIGTERM w0) else w0);
          w = (if websockifyPid m \<noteq> - 1
               then waitpid (websockifyPid m) (kill (websockifyPid m) SIGTERM w) else w)
      in w)"

subsection \<open>Booting\<close>

definition boot :: "env \<Rightarrow> vm \<Rightarrow> world \<Rightarrow> bool ctl \<times> vm \<times> world" where
  "boot e m w0 =
     (let w = printLog ''LOG'' ''Booting Computer..'' w0;
          w = printDebug ''Checking components..'' w;
          w = createDirectories e w;
          (firmwareOk, w) = checkFile (firmwarePath m) ''Firmware'' w;
          (diskOk, w) =
             (case checkFile (diskPath m) ''Disk'' w of
                (True, w) \<Rightarrow> (True, w)
              | (False, w) \<Rightarrow> createDefaultDisk e m w);
          (isoFile, w) = findISO e m w;
          isoOk = (isoFile \<noteq> []);
          w = (if \<not> isoOk then printDebug ''ISO available.. No'' w
               else printDebug ''ISO available.. Yes'' w)
      in if \<not> diskOk \<and> \<not> isoOk then
           (Ret False, m, printLog ''ERROR'' ''No disk or ISO available!'' w)
         else
           let w = printDebug ''Checking Libraries..'' w;
               (noVNCOk, w) = checkFile (noVNCPath m) ''noVNC'' w;
               (status, w) = system e ''which websockify > /dev/null 2>&1'' w;
               websockifyOk = (status = 0);
               w = printDebug (''Websockify.. '' @ (if websockifyOk then ''Yes!'' else ''No'')) w
           in if useVNC m \<and> (\<not> noVNCOk \<or> \<not> websockifyOk) then
                (Ret False, m,
                 printLog ''ERROR'' ''Required libraries not found for VNC mode!'' w)
              else
                let w = printDebug ''Starting Machine..'' w;
                    w = (if isoOk \<and> fs_exists w (diskPath m) then
                           printLog ''INFO'' ''Booting from ISO with disk available!'' w
                         else if isoOk then
                           printLog ''INFO'' ''Booting from ISO only!'' w
                         else
                           printLog ''INFO'' ''There's no ISO on rom/, Booting from disk!'' w)
                in case startQEMU e m w of
                     (Gone, m, w) \<Rightarrow> (Gone, m, w)
                   | (Ret False, m, w) \<Rightarrow> (Ret False, m, w)
                   | (Ret True, m, w) \<Rightarrow>
                       if useVNC m then
                         (case startWebsockify e m w of
                            (Gone, m, w) \<Rightarrow> (Gone, m, w)
                          | (Ret False, m, w) \<Rightarrow> (Ret False, m, cleanup m w)
                          | (Ret True, m, w) \<Rightarrow>
                              (Ret True, m,
                               printLog ''INFO''
                                 ''Port 8080 For Machine Opened! Go to http://localhost:8080/vnc.html?resize=remote&autoconnect=true''
                                 w))
                       else
                         (Ret True, m,
                          printLog ''INFO'' ''Machine started in full-screen mode!'' w))"

text \<open>
  The three parts of \<^verbatim>\<open>boot\<close>: checking the components (up to the report on the
  removable media), checking the libraries, and starting the machine. They are the same
  statements as above, cut where \<^verbatim>\<open>boot\<close> may return; \<open>boot\<close> is shown below to be
  their composition.
\<close>

definition boot_components :: "env \<Rightarrow> vm \<Rightarrow> world \<Rightarrow> bool \<times> string \<times> world" where
  "boot_components e m w0 =
     (let w = printLog ''LOG'' ''Booting Computer..'' w0;
          w = printDebug ''Checking components..'' w;
          w = createDirectories e w;
          (firmwareOk, w) = checkFile (firmwarePath m) ''Firmware'' w;
          (diskOk, w) =
             (case checkFile (diskPath m) ''Disk'' w of
                (True, w) \<Rightarrow> (True, w)
              | (False, w) \<Rightarrow> createDefaultDisk e m w);
          (isoFile, w) = findISO e m w;
          isoOk = (isoFile \<noteq> []);
          w = (if \<not> isoOk then printDebug ''ISO available.. No'' w
               else printDebug ''ISO available.. Yes'' w)
      in (diskOk, isoFile, w))"

definition boot_libraries :: "env \<Rightarrow> vm \<Rightarrow> world \<Rightarrow> bool \<times> bool \<times> world" where
  "boot_libraries e m w0 =
     (let w = printDebug ''Checking Libraries..'' w0;
          (noVNCOk, w) = checkFile (noVNCPath m) ''noVNC'' w;
          (status, w) = system e ''which websockify > /dev/null 2>&1'' w;
          websockifyOk = (status = 0);
          w = printDebug (''Websockify.. '' @ (if websockifyOk then ''Yes!'' else ''No'')) w
      in (noVNCOk, websockifyOk, w))"

definition boot_start :: "env \<Rightarrow> vm \<Rightarrow> bool \<Rightarrow> world \<Rightarrow> bool ctl \<times> vm \<times> world" where
  "boot_start e m isoOk w0 =
     (let w = printDebug ''Starting Machine..'' w0;
          w = (if isoOk \<and> fs_exists w (diskPath m) then
                 printLog ''INFO'' ''Booting from ISO with disk available!'' w
               else if isoOk then
                 printLog ''INFO'' ''Booting from ISO only!'' w
               else
                 printLog ''INFO'' ''There's no ISO on rom/, Booting from disk!'' w)
      in case startQEMU e m w of
           (Gone, m, w) \<Rightarrow> (Gone, m, w)
         | (Ret False, m, w) \<Rightarrow> (Ret False, m, w)
         | (Ret True, m, w) \<Rightarrow>
             if useVNC m then
               (case startWebsockify e m w of
                  (Gone, m, w) \<Rightarrow> (Gone, m, w)
                | (Ret False, m, w) \<Rightarrow> (Ret False, m, cleanup m w)
                | (Ret True, m, w) \<Rightarrow>
                    (Ret True, m,
                     printLog ''INFO''
                       ''Port 8080 For Machine Opened! Go to http://localhost:8080/vnc.html?resize=remote&autoconnect=true''
                       w))
             else
               (Ret True, m,
                printLog ''INFO'' ''Machine started in full-screen mode!'' w))"

subsection \<open>The program\<close>

text \<open>
  \<^verbatim>\<open>main\<close> binds \<^verbatim>\<open>SIGINT\<close> and \<^verbatim>\<open>SIGTERM\<close> to \<^verbatim>\<open>signalHandler\<close>, reads its arguments,
  boots, and then sleeps in a loop that only a signal ends. A process is \<open>Running\<close> in
  that loop, \<open>Terminated\<close> with its exit status, or \<open>Child\<close> when it is the forked child
  on its way to \<^verbatim>\<open>exec\<close>.
\<close>

datatype pstate = Running vm world | Terminated int world | Child world

definition signalHandler :: "signal \<Rightarrow> world \<Rightarrow> pstate" where
  "signalHandler sig w =
     Terminated 0 (emit (Stdout ([CHR 0x0A] @ ''[INFO] Shutting down gracefully...'')) w)"

function scan_args :: "nat \<Rightarrow> string list \<Rightarrow> bool" where
  "scan_args i argv =
     (if i < length argv
      then (if argv ! i = ''--no-vnc'' then True else scan_args (i + 1) argv)
      else False)"
  by pat_completeness auto
termination
  by (relation "measure (\<lambda>(i, argv). length argv - i)") auto

declare scan_args.simps [simp del]

definition main :: "env \<Rightarrow> string list \<Rightarrow> world \<Rightarrow> pstate" where
  "main e argv w0 =
     (let noVNC = scan_args 1 argv;
          m = setVNCMode (\<not> noVNC) ComputerVM
      in case boot e m w0 of
           (Ret True, m, w) \<Rightarrow> Running m w
         | (Ret False, m, w) \<Rightarrow>
             Terminated 1 (emit (Stderr ''[ERROR] Failed to boot virtual machine!'') w)
         | (Gone, m, w) \<Rightarrow> Child w)"

text \<open>
  What happens to a process next: one more turn of the idle loop, or the delivery of a
  signal. Nothing happens to a process that has terminated.
\<close>

datatype input = Tick | Signal signal

fun step :: "pstate \<Rightarrow> input \<Rightarrow> pstate" where
  "step (Running m w) Tick = Running m (sleep 1 w)"
| "step (Running m w) (Signal sig) = signalHandler sig w"
| "step st _ = st"

definition run :: "pstate \<Rightarrow> input list \<Rightarrow> pstate" where
  "run st inputs = foldl step st inputs"

fun world_of :: "pstate \<Rightarrow> world" where
  "world_of (Running m w) = w"
| "world_of (Terminated c w) = w"
| "world_of (Child w) = w"

subsection \<open>Reading a trace\<close>

text \<open>\<open>precedes a b evs\<close>: both occur, and the first \<open>a\<close> comes before the first \<open>b\<close>.\<close>

fun index_of :: "'a \<Rightarrow> 'a list \<Rightarrow> nat option" where
  "index_of a [] = None"
| "index_of a (x # xs) =
     (if x = a then Some 0 else map_option Suc (index_of a xs))"

definition precedes :: "'a \<Rightarrow> 'a \<Rightarrow> 'a list \<Rightarrow> bool" where
  "precedes a b evs =
     (case (index_of a evs, index_of b evs) of
        (Some i, Some j) \<Rightarrow> i < j
      | _ \<Rightarrow> False)"

text \<open>
  \<open>args_of flag cmd\<close>: for each occurrence of the flag in a command line, the token
  that follows it as its value, or \<open>None\<close> when the flag is the last token and dangles.
\<close>

fun args_of :: "string \<Rightarrow> string list \<Rightarrow> string option list" where
  "args_of flag [] = []"
| "args_of flag [x] = (if x = flag then [None] else [])"
| "args_of flag (x # y # rest) =
     (if x = flag then Some y # args_of flag rest else args_of flag (y # rest))"

text \<open>
  The events that concern child processes, and the process view of a world: its
  children, the number of forks so far and the process events of its trace.
\<close>

fun is_proc :: "event \<Rightarrow> bool" where
  "is_proc (Fork p) = True"
| "is_proc (Execvp argv) = True"
| "is_proc (Execl file argv) = True"
| "is_proc (Kill p s) = True"
| "is_proc (Waitpid p) = True"
| "is_proc _ = False"

definition proc_view :: "world \<Rightarrow> pid list \<times> nat \<times> event list" where
  "proc_view w = (children w, nforks w, filter is_proc (trace w))"

text \<open>The initial world of a run: the given file system, no child, nothing done yet.\<close>

definition fresh :: "filesystem \<Rightarrow> world" where
  "fresh fs = \<lparr> fsys = fs, children = [], nforks = 0, trace = [] \<rparr>"

subsection \<open>A concrete machine\<close>

text \<open>
  A directory tree with firmware, a disk image, one removable-media image next to a
  file that is none, and the web assets; and collaborators that all succeed, every write
  reaching its file in full and the two forks returning the pids 4001 and 4002.
\<close>

definition scenario_fs :: filesystem where
  "scenario_fs =
     [''./boot'' \<mapsto> Directory [''firmware''],
      ''./boot/firmware'' \<mapsto> Directory [''OVMF_CODE.fd''],
      ''./boot/firmware/OVMF_CODE.fd'' \<mapsto> RegFile [],
      ''./devices'' \<mapsto> Directory [''disk'', ''rom''],
      ''./devices/disk'' \<mapsto> Directory [''disk.qcow2''],
      ''./devices/disk/disk.qcow2'' \<mapsto> RegFile [],
      ''./devices/rom'' \<mapsto> Directory [''notes.txt'', ''install.iso''],
      ''./devices/rom/notes.txt'' \<mapsto> RegFile [],
      ''./devices/rom/install.iso'' \<mapsto> RegFile [],
      ''./libraries'' \<mapsto> Directory [''noVNC''],
      ''./libraries/noVNC'' \<mapsto> Directory [''vnc.html''],
      ''./libraries/noVNC/vnc.html'' \<mapsto> RegFile []]"

definition scenario_env :: env where
  "scenario_env =
     \<lparr> system_status = (\<lambda>cmd. 0),
       qemu_img_leaves = None,
       ofstream_leaves = (\<lambda>p bs. Some bs),
       fork_ret = (\<lambda>n. if n = 0 then 4001 else 4002),
       error_what = ''filesystem error'' \<rparr>"

text \<open>The command \<^verbatim>\<open>createDefaultDisk\<close> runs for the constructor's image path.\<close>

definition disk_tool_cmd :: string where
  "disk_tool_cmd =
     ''qemu-img create -f qcow2 '' @ [CHR 0x22] @ ''./devices/disk/disk.qcow2''
       @ [CHR 0x22] @ '' 20G''"

definition which_cmd :: string where
  "which_cmd = ''which websockify > /dev/null 2>&1''"

text \<open>A tree with nothing but a disk image and a media directory that holds no image.\<close>

definition bare_fs :: filesystem where
  "bare_fs =
     [''./devices'' \<mapsto> Directory [''disk'', ''rom''],
      ''./devices/disk'' \<mapsto> Directory [''disk.qcow2''],
      ''./devices/disk/disk.qcow2'' \<mapsto> RegFile [],
      ''./devices/rom'' \<mapsto> Directory [''notes.txt''],
      ''./devices/rom/notes.txt'' \<mapsto> RegFile []]"

text \<open>Collaborators of which every shell command fails and every fork fails.\<close>

definition failing_env :: env where
  "failing_env =
     \<lparr> system_status = (\<lambda>cmd. 1),
       qemu_img_leaves = None,
       ofstream_leaves = (\<lambda>p bs. None),
       fork_ret = (\<lambda>n. - 1),
       error_what = ''filesystem error'' \<rparr>"


text \<open>Collaborators as in the scenario, except that only the first fork succeeds.\<close>

definition second_fork_fails :: env where
  "second_fork_fails = scenario_env\<lparr>fork_ret := (\<lambda>n. if n = 0 then 4001 else - 1)\<rparr>"

text \<open>
  Collaborators of which the disk tool succeeds and leaves an image of four bytes, while
  \<^verbatim>\<open>which websockify\<close> fails.
\<close>

definition no_bridge_env :: env where
  "no_bridge_env =
     \<lparr> system_status = (\<lambda>cmd. if cmd = which_cmd then 1 else 0),
       qemu_img_leaves = Some [0x51, 0x46, 0x49, 0xFB],
       ofstream_leaves = (\<lambda>p bs. Some bs),
       fork_ret = (\<lambda>n. if n = 0 then 4001 else 4002),
       error_what = ''filesystem error'' \<rparr>"

text \<open>A tree that holds the web assets and nothing else.\<close>

definition assets_only_fs :: filesystem where
  "assets_only_fs =
     [''./libraries'' \<mapsto> Directory [''noVNC''],
      ''./libraries/noVNC'' \<mapsto> Directory [''vnc.html''],
      ''./libraries/noVNC/vnc.html'' \<mapsto> RegFile []]"

text \<open>A supervisor whose two children, 4001 and 4002, are both alive.\<close>

definition supervising :: vm where
  "supervising = ComputerVM\<lparr>qemuPid := 4001, websockifyPid := 4002\<rparr>"

definition both_live :: world where
  "both_live = \<lparr> fsys = scenario_fs, children = [4001, 4002], nforks = 2, trace = [] \<rparr>"

section \<open>What each helper leaves unchanged\<close>

lemma proc_view_emit: "\<not> is_proc ev \<Longrightarrow> proc_view (emit ev w) = proc_view w"
  by (simp add: proc_view_def emit_def)

lemma proc_view_printLog [simp]: "proc_view (printLog l s w) = proc_view w"
  by (simp add: printLog_def proc_view_emit)

lemma proc_view_printDebug [simp]: "proc_view (printDebug s w) = proc_view w"
  by (simp add: printDebug_def proc_view_emit)

lemma proc_view_sleep [simp]: "proc_view (sleep n w) = proc_view w"
  by (simp add: sleep_def proc_view_emit)

lemma fsys_printLog [simp]: "fsys (printLog l s w) = fsys w"
  by (simp add: printLog_def emit_def)

lemma fsys_printDebug [simp]: "fsys (printDebug s w) = fsys w"
  by (simp add: printDebug_def emit_def)

lemma fsys_sleep [simp]: "fsys (sleep n w) = fsys w"
  by (simp add: sleep_def emit_def)

lemma proc_view_write_file [simp]: "proc_view (write_file e p bs w) = proc_view w"
  by (simp add: write_file_def proc_view_def split: option.splits)

lemma fsys_write_file:
  "fsys (write_file e p bs w) =
     (case ofstream_leaves e p bs of
        None \<Rightarrow> fsys w
      | Some written \<Rightarrow> (fsys w)(p \<mapsto> RegFile written))"
  by (simp add: write_file_def split: option.splits)

lemma fsys_write_file_other [simp]: "q \<noteq> p \<Longrightarrow> fsys (write_file e p bs w) q = fsys w q"
  by (simp add: write_file_def split: option.splits)

lemma trace_write_file [simp]: "trace (write_file e p bs w) = trace w"
  by (simp add: write_file_def split: option.splits)

lemma proc_view_put_file [simp]: "proc_view (put_file p bs w) = proc_view w"
  by (simp add: put_file_def proc_view_def)

lemma fsys_put_file [simp]: "fsys (put_file p bs w) = (fsys w)(p \<mapsto> RegFile bs)"
  by (simp add: put_file_def)

lemma proc_view_system [simp]: "proc_view (snd (system e c w)) = proc_view w"
  by (simp add: system_def proc_view_emit)

lemma fsys_system [simp]: "fsys (snd (system e c w)) = fsys w"
  by (simp add: system_def emit_def)

lemma fst_system [simp]: "fst (system e c w) = system_status e c"
  by (simp add: system_def)

lemma fst_checkFile [simp]: "fst (checkFile p n w) = (fsys w p \<noteq> None)"
  by (simp add: checkFile_def fs_exists_def)

lemma proc_view_checkFile [simp]: "proc_view (snd (checkFile p n w)) = proc_view w"
  by (simp add: checkFile_def)

lemma fsys_checkFile [simp]: "fsys (snd (checkFile p n w)) = fsys w"
  by (simp add: checkFile_def)

lemma mkdirs_quiet: "proc_view (snd (mkdirs qs w)) = proc_view w"
  by (induction qs arbitrary: w) (auto simp: proc_view_def split: option.splits node.splits)

lemma trace_mkdirs: "trace (snd (mkdirs qs w)) = trace w"
  by (induction qs arbitrary: w) (auto split: option.splits node.splits)

lemma mkdirs_fsys: "p \<notin> set qs \<Longrightarrow> fsys (snd (mkdirs qs w)) p = fsys w p"
  by (induction qs arbitrary: w) (auto split: option.splits node.splits)

lemma mkdirs_dir:
  "fsys (snd (mkdirs qs w)) p = fsys w p
   \<or> (fsys w p = None \<and> fsys (snd (mkdirs qs w)) p = Some (Directory []))"
proof (induction qs arbitrary: w)
  case Nil
  show ?case by simp
next
  case (Cons a qs)
  show ?case
  proof (cases "fsys w a")
    case None
    let ?w = "w\<lparr>fsys := (fsys w)(a \<mapsto> Directory [])\<rparr>"
    have step: "mkdirs (a # qs) w = mkdirs qs ?w"
      using None by simp
    from Cons.IH [of ?w] show ?thesis
      unfolding step using None by (cases "a = p") auto
  next
    case (Some n)
    show ?thesis
    proof (cases n)
      case (RegFile bs)
      with Some show ?thesis by simp
    next
      case (Directory ns)
      with Some have "mkdirs (a # qs) w = mkdirs qs w"
        by simp
      with Cons.IH [of w] show ?thesis by simp
    qed
  qed
qed

lemma mkdirs_append:
  "mkdirs (xs @ ys) w =
     (case mkdirs xs w of (False, w') \<Rightarrow> (False, w') | (True, w') \<Rightarrow> mkdirs ys w')"
  by (induction xs arbitrary: w) (auto split: option.splits node.splits)

lemma try_create_mkdirs: "try_create ps w = mkdirs (concat (map path_elements ps)) w"
  by (induction ps arbitrary: w)
     (auto simp: create_directories_def mkdirs_append split: prod.splits bool.splits)

lemma try_create_quiet:
  "proc_view (snd (try_create ps w)) = proc_view w"
  by (simp add: try_create_mkdirs mkdirs_quiet)

lemma try_create_fsys:
  "p \<notin> set (concat (map path_elements ps)) \<Longrightarrow> fsys (snd (try_create ps w)) p = fsys w p"
  unfolding try_create_mkdirs by (rule mkdirs_fsys)

lemma try_create_dir:
  "fsys (snd (try_create ps w)) p = fsys w p
   \<or> (fsys w p = None \<and> fsys (snd (try_create ps w)) p = Some (Directory []))"
  unfolding try_create_mkdirs by (rule mkdirs_dir)

lemma standard_elements:
  "concat (map path_elements standard_dirs) =
     [''./devices'', ''./devices/disk'', ''./devices'', ''./devices/rom'',
      ''./boot'', ''./boot/firmware'', ''./libraries'']"
  by (simp add: standard_dirs_def path_elements_def)

lemma createDirectories_cases:
  "createDirectories e w = snd (try_create standard_dirs w)
   \<or> createDirectories e w =
     printLog ''ERROR'' (''Failed to create directories: '' @ error_what e)
       (snd (try_create standard_dirs w))"
  unfolding createDirectories_def
  by (cases "try_create standard_dirs w") (simp split: bool.splits)

lemma proc_view_createDirectories [simp]:
  "proc_view (createDirectories e w) = proc_view w"
  using createDirectories_cases [of e w] by (auto simp: try_create_quiet)

lemma fsys_createDirectories:
  "p \<notin> set (concat (map path_elements standard_dirs))
   \<Longrightarrow> fsys (createDirectories e w) p = fsys w p"
  using createDirectories_cases [of e w] by (auto simp: try_create_fsys)

lemma dir_createDirectories:
  "fsys (createDirectories e w) p = fsys w p
   \<or> (fsys w p = None \<and> fsys (createDirectories e w) p = Some (Directory []))"
  using createDirectories_cases [of e w] try_create_dir [of standard_dirs w p]
  by auto

lemma fst_findISO:
  "fst (findISO e m w) =
     (case fsys w (romPath m) of
        Some (Directory names) \<Rightarrow> first_iso (map (path_join (romPath m)) names)
      | _ \<Rightarrow> [])"
  by (simp add: findISO_def directory_iterator_def Let_def split: option.splits node.splits)

lemma proc_view_findISO [simp]: "proc_view (snd (findISO e m w)) = proc_view w"
  by (simp add: findISO_def Let_def split: option.splits)

lemma fsys_findISO [simp]: "fsys (snd (findISO e m w)) = fsys w"
  by (simp add: findISO_def Let_def split: option.splits)

lemma findISO_createDirectories:
  "fst (findISO e m (createDirectories e' w)) = fst (findISO e m w)"
  using dir_createDirectories [of e' w "romPath m"]
  by (auto simp: fst_findISO)

lemma proc_view_createDefaultDisk [simp]:
  "proc_view (snd (createDefaultDisk e m w)) = proc_view w"
  by (simp add: createDefaultDisk_def Let_def split_beta split: option.splits)

lemma fsys_createDefaultDisk:
  "fsys (snd (createDefaultDisk e m w)) =
     (if fsys w (diskPath m) = None
      then (case qemu_img_leaves e of
              None \<Rightarrow> fsys w
            | Some bs \<Rightarrow> (fsys w)(diskPath m \<mapsto> RegFile bs))
      else fsys w)"
  by (simp add: createDefaultDisk_def fs_exists_def Let_def split_beta split: option.splits)

lemma fst_createDefaultDisk:
  "fst (createDefaultDisk e m w) =
     (fsys w (diskPath m) = None \<longrightarrow>
      system_status e (''qemu-img create -f qcow2 '' @ [CHR 0x22] @ diskPath m @ [CHR 0x22] @ '' 20G'') = 0)"
  by (simp add: createDefaultDisk_def fs_exists_def Let_def split_beta)

section \<open>The command line, block by block\<close>

lemma buildQEMUCommand_blocks:
  "buildQEMUCommand e m w0 =
     (case cmd_firmware e m (cmd_display m (cmd_graphics (cmd_basics []))) w0 of
        (cmd, w) \<Rightarrow>
          (case cmd_iso e m (cmd_disk m w cmd) w of
             (cmd, w) \<Rightarrow> (cmd_rtc (cmd_usb (cmd_network (cmd_audio cmd))), w)))"
  by (simp only: buildQEMUCommand_def cmd_basics_def cmd_graphics_def cmd_display_def
        cmd_firmware_def cmd_disk_def cmd_iso_def cmd_audio_def cmd_network_def
        cmd_usb_def cmd_rtc_def Let_def split_beta)

lemma cmd_basics_eq:
  "cmd_basics cmd =
     cmd @ [''qemu-system-x86_64'', ''-enable-kvm'', ''-cpu'', ''host'', ''-smp'', ''4'', ''-m'', ''4G'']"
  by (simp add: cmd_basics_def push_back_def)

lemma cmd_graphics_eq: "cmd_graphics cmd = cmd @ [''-vga'', ''virtio'']"
  by (simp add: cmd_graphics_def push_back_def)

lemma cmd_display_eq:
  "cmd_display m cmd =
     cmd @ (if useVNC m then [''-display'', ''none'', ''-vnc'', '':1'']
            else [''-display'', ''gtk,full-screen=on''])"
  by (simp add: cmd_display_def push_back_def)

lemma fst_cmd_firmware:
  "fst (cmd_firmware e m cmd w) =
     cmd @ (if fs_exists w (firmwarePath m)
            then [''-drive'', ''if=pflash,format=raw,readonly=on,file='' @ firmwarePath m,
                  ''-drive'', ''if=pflash,format=raw,file='' @ varsPath]
            else [])"
  by (simp add: cmd_firmware_def push_back_def Let_def)

lemma snd_cmd_firmware:
  "snd (cmd_firmware e m cmd w) =
     (if fs_exists w (firmwarePath m) \<and> \<not> fs_exists w varsPath
      then write_file e varsPath (replicate 65536 0)
             (printLog ''INFO'' ''Creating OVMF VARS file...'' w)
      else w)"
  by (simp add: cmd_firmware_def Let_def)

lemma cmd_disk_eq:
  "cmd_disk m w cmd =
     cmd @ (if fs_exists w (diskPath m)
            then [''-drive'', ''file='' @ diskPath m @ '',format=qcow2,if=virtio'']
            else [])"
  by (simp add: cmd_disk_def push_back_def)

lemma fst_cmd_iso:
  "fst (cmd_iso e m cmd w) =
     cmd @ (if fst (findISO e m w) \<noteq> [] then [''-cdrom'', fst (findISO e m w)] else [])"
  by (simp add: cmd_iso_def push_back_def Let_def split_beta)

lemma snd_cmd_iso:
  "snd (cmd_iso e m cmd w) =
     (if fst (findISO e m w) \<noteq> []
      then printLog ''INFO'' (''ISO found: '' @ filename (fst (findISO e m w)))
             (snd (findISO e m w))
      else snd (findISO e m w))"
  by (simp add: cmd_iso_def Let_def split_beta)

lemma cmd_audio_eq:
  "cmd_audio cmd =
     cmd @ [''-audiodev'', ''alsa,id=audio0'', ''-device'', ''intel-hda'',
            ''-device'', ''hda-duplex,audiodev=audio0'']"
  by (simp add: cmd_audio_def push_back_def)

lemma cmd_network_eq:
  "cmd_network cmd =
     cmd @ [''-netdev'', ''user,id=net0'', ''-device'', ''virtio-net-pci,netdev=net0'']"
  by (simp add: cmd_network_def push_back_def)

lemma cmd_usb_eq:
  "cmd_usb cmd = cmd @ [''-device'', ''usb-ehci'', ''-device'', ''usb-tablet'']"
  by (simp add: cmd_usb_def push_back_def)

lemma cmd_rtc_eq: "cmd_rtc cmd = cmd @ [''-rtc'', ''base=localtime,clock=host'']"
  by (simp add: cmd_rtc_def push_back_def)

lemma fst_buildQEMUCommand:
  "fst (buildQEMUCommand e m w) =
     (let w1 = snd (cmd_firmware e m [] w) in
     [''qemu-system-x86_64'', ''-enable-kvm'', ''-cpu'', ''host'', ''-smp'', ''4'', ''-m'', ''4G'']
   @ [''-vga'', ''virtio'']
   @ (if useVNC m then [''-display'', ''none'', ''-vnc'', '':1'']
      else [''-display'', ''gtk,full-screen=on''])
   @ (if fs_exists w (firmwarePath m)
      then [''-drive'', ''if=pflash,format=raw,readonly=on,file='' @ firmwarePath m,
            ''-drive'', ''if=pflash,format=raw,file='' @ varsPath]
      else [])
   @ (if fs_exists w1 (diskPath m)
      then [''-drive'', ''file='' @ diskPath m @ '',format=qcow2,if=virtio'']
      else [])
   @ (if fst (findISO e m w1) \<noteq> [] then [''-cdrom'', fst (findISO e m w1)] else [])
   @ [''-audiodev'', ''alsa,id=audio0'', ''-device'', ''intel-hda'',
      ''-device'', ''hda-duplex,audiodev=audio0'']
   @ [''-netdev'', ''user,id=net0'', ''-device'', ''virtio-net-pci,netdev=net0'']
   @ [''-device'', ''usb-ehci'', ''-device'', ''usb-tablet'']
   @ [''-rtc'', ''base=localtime,clock=host''])"
  apply (simp only: buildQEMUCommand_blocks split_beta fst_conv snd_conv Let_def)
  apply (simp only: cmd_basics_eq cmd_graphics_eq cmd_display_eq fst_cmd_firmware
      cmd_disk_eq fst_cmd_iso cmd_audio_eq cmd_network_eq cmd_usb_eq cmd_rtc_eq
      snd_cmd_firmware append_assoc append_Nil)
  done

lemma paths_ComputerVM [simp]:
  "diskPath (setVNCMode b ComputerVM) = ''./devices/disk/disk.qcow2''"
  "romPath (setVNCMode b ComputerVM) = ''./devices/rom''"
  "firmwarePath (setVNCMode b ComputerVM) = ''./boot/firmware/OVMF_CODE.fd''"
  "noVNCPath (setVNCMode b ComputerVM) = ''./libraries/noVNC''"
  "useVNC (setVNCMode b ComputerVM) = b"
  "qemuPid (setVNCMode b ComputerVM) = - 1"
  "websockifyPid (setVNCMode b ComputerVM) = - 1"
  by (simp_all add: setVNCMode_def ComputerVM_def)

lemma paths_ComputerVM0 [simp]:
  "diskPath ComputerVM = ''./devices/disk/disk.qcow2''"
  "romPath ComputerVM = ''./devices/rom''"
  "firmwarePath ComputerVM = ''./boot/firmware/OVMF_CODE.fd''"
  "noVNCPath ComputerVM = ''./libraries/noVNC''"
  by (simp_all add: ComputerVM_def)

lemma findISO_frame:
  "romPath m' = romPath m \<Longrightarrow> fsys w' (romPath m) = fsys w (romPath m)
   \<Longrightarrow> fst (findISO e' m' w') = fst (findISO e m w)"
  by (simp add: fst_findISO split: option.splits node.splits)

lemma fsys_snd_cmd_firmware:
  "p \<noteq> varsPath \<Longrightarrow> fsys (snd (cmd_firmware e m cmd w)) p = fsys w p"
  by (simp add: snd_cmd_firmware)

lemma disk_after_firmware:
  "fs_exists (snd (cmd_firmware e (setVNCMode b ComputerVM) cmd w))
     (diskPath (setVNCMode b ComputerVM)) = fs_exists w ''./devices/disk/disk.qcow2''"
  by (simp add: fs_exists_def fsys_snd_cmd_firmware varsPath_def)

lemma iso_after_firmware:
  "fst (findISO e (setVNCMode b ComputerVM) (snd (cmd_firmware e (setVNCMode b ComputerVM) cmd w)))
     = fst (findISO e' ComputerVM w)"
  by (rule findISO_frame) (simp_all add: fsys_snd_cmd_firmware varsPath_def)

lemma first_iso_cases: "first_iso xs = [] \<or> first_iso xs \<in> set xs"
  by (induction xs) auto

lemma iso_shape:
  "fst (findISO e ComputerVM w) = []
   \<or> (\<exists>n. fst (findISO e ComputerVM w) = ''./devices/rom/'' @ n)"
proof (cases "fsys w ''./devices/rom''")
  case None
  then show ?thesis by (simp add: fst_findISO)
next
  case (Some nd)
  show ?thesis
  proof (cases nd)
    case (RegFile bs)
    with Some show ?thesis by (simp add: fst_findISO)
  next
    case (Directory names)
    let ?xs = "map (path_join ''./devices/rom'') names"
    have eq: "fst (findISO e ComputerVM w) = first_iso ?xs"
      using Some Directory by (simp add: fst_findISO)
    from first_iso_cases [of ?xs] show ?thesis
    proof
      assume "first_iso ?xs = []"
      with eq show ?thesis by simp
    next
      assume "first_iso ?xs \<in> set ?xs"
      then obtain n where "first_iso ?xs = path_join ''./devices/rom'' n" by auto
      then have "fst (findISO e ComputerVM w) = ''./devices/rom/'' @ n"
        using eq by (simp add: path_join_def)
      then show ?thesis by blast
    qed
  qed
qed

section \<open>Order of the emulator's command line\<close>

text \<open>
  C6. The command line is assembled in a fixed order: the program name with the CPU,
  memory and virtualisation flags; the graphics adapter; the display flags (bridged: no
  local display and the remote display on channel \<^verbatim>\<open>:1\<close>; direct: a local full-screen
  display); the read-only firmware pflash drive followed by the variable-store pflash
  drive, both only if the firmware exists; the disk drive, only if the image exists; the
  removable-media drive, only if an image was found; then audio, network, USB input and
  the real-time clock.
\<close>

theorem command_order:
  "fst (buildQEMUCommand e (setVNCMode bridged ComputerVM) w) =
     [''qemu-system-x86_64'', ''-enable-kvm'', ''-cpu'', ''host'', ''-smp'', ''4'', ''-m'', ''4G'']
   @ [''-vga'', ''virtio'']
   @ (if bridged then [''-display'', ''none'', ''-vnc'', '':1'']
      else [''-display'', ''gtk,full-screen=on''])
   @ (if fs_exists w ''./boot/firmware/OVMF_CODE.fd''
      then [''-drive'', ''if=pflash,format=raw,readonly=on,file=./boot/firmware/OVMF_CODE.fd'',
            ''-drive'', ''if=pflash,format=raw,file=./boot/firmware/OVMF_VARS.fd'']
      else [])
   @ (if fs_exists w ''./devices/disk/disk.qcow2''
      then [''-drive'', ''file=./devices/disk/disk.qcow2,format=qcow2,if=virtio'']
      else [])
   @ (if fst (findISO e ComputerVM w) \<noteq> []
      then [''-cdrom'', fst (findISO e ComputerVM w)]
      else [])
   @ [''-audiodev'', ''alsa,id=audio0'', ''-device'', ''intel-hda'',
      ''-device'', ''hda-duplex,audiodev=audio0'']
   @ [''-netdev'', ''user,id=net0'', ''-device'', ''virtio-net-pci,netdev=net0'']
   @ [''-device'', ''usb-ehci'', ''-device'', ''usb-tablet'']
   @ [''-rtc'', ''base=localtime,clock=host'']"
  unfolding fst_buildQEMUCommand Let_def disk_after_firmware iso_after_firmware [of e _ _ _ e]
  by (simp add: varsPath_def split del: if_split cong: if_cong)

lemma scenario_iso:
  "fst (findISO e ComputerVM (fresh scenario_fs)) = ''./devices/rom/install.iso''"
  by (simp add: fst_findISO fresh_def scenario_fs_def path_join_def extension_def filename_def)

theorem command_order_witness:
  "fst (buildQEMUCommand scenario_env (setVNCMode True ComputerVM) (fresh scenario_fs)) =
     [''qemu-system-x86_64'', ''-enable-kvm'', ''-cpu'', ''host'', ''-smp'', ''4'', ''-m'', ''4G'',
      ''-vga'', ''virtio'',
      ''-display'', ''none'', ''-vnc'', '':1'',
      ''-drive'', ''if=pflash,format=raw,readonly=on,file=./boot/firmware/OVMF_CODE.fd'',
      ''-drive'', ''if=pflash,format=raw,file=./boot/firmware/OVMF_VARS.fd'',
      ''-drive'', ''file=./devices/disk/disk.qcow2,format=qcow2,if=virtio'',
      ''-cdrom'', ''./devices/rom/install.iso'',
      ''-audiodev'', ''alsa,id=audio0'', ''-device'', ''intel-hda'',
      ''-device'', ''hda-duplex,audiodev=audio0'',
      ''-netdev'', ''user,id=net0'', ''-device'', ''virtio-net-pci,netdev=net0'',
      ''-device'', ''usb-ehci'', ''-device'', ''usb-tablet'',
      ''-rtc'', ''base=localtime,clock=host'']"
  using command_order [of scenario_env True "fresh scenario_fs"]
  by (simp add: scenario_iso) (simp add: fs_exists_def fresh_def scenario_fs_def)

lemma fsys_cmd_iso [simp]: "fsys (snd (cmd_iso e m cmd w)) = fsys w"
  by (simp add: snd_cmd_iso)

lemma proc_view_cmd_iso [simp]: "proc_view (snd (cmd_iso e m cmd w)) = proc_view w"
  by (simp add: snd_cmd_iso)

lemma proc_view_cmd_firmware [simp]: "proc_view (snd (cmd_firmware e m cmd w)) = proc_view w"
  by (simp add: snd_cmd_firmware)

lemma fsys_cmd_firmware:
  "fsys (snd (cmd_firmware e m cmd w)) =
     (if fs_exists w (firmwarePath m) \<and> \<not> fs_exists w varsPath
      then (case ofstream_leaves e varsPath (replicate 65536 0) of
              None \<Rightarrow> fsys w
            | Some written \<Rightarrow> (fsys w)(varsPath \<mapsto> RegFile written))
      else fsys w)"
  by (simp add: snd_cmd_firmware fsys_write_file split: option.splits)

lemma fsys_buildQEMUCommand:
  "fsys (snd (buildQEMUCommand e m w)) =
     (if fs_exists w (firmwarePath m) \<and> \<not> fs_exists w varsPath
      then (case ofstream_leaves e varsPath (replicate 65536 0) of
              None \<Rightarrow> fsys w
            | Some written \<Rightarrow> (fsys w)(varsPath \<mapsto> RegFile written))
      else fsys w)"
  by (simp only: buildQEMUCommand_blocks split_beta snd_conv fsys_cmd_iso fsys_cmd_firmware)

lemma fsys_buildQEMUCommand_other:
  "p \<noteq> varsPath \<Longrightarrow> fsys (snd (buildQEMUCommand e m w)) p = fsys w p"
  by (simp add: fsys_buildQEMUCommand split: option.splits)

lemma proc_view_buildQEMUCommand [simp]:
  "proc_view (snd (buildQEMUCommand e m w)) = proc_view w"
  by (simp add: buildQEMUCommand_blocks split_beta)

section \<open>The firmware variable store\<close>




section \<open>Resources that are not there\<close>

lemma buildQEMUCommand_tokens:
  "fst (buildQEMUCommand e (setVNCMode b ComputerVM) w) =
     [''qemu-system-x86_64'', ''-enable-kvm'', ''-cpu'', ''host'', ''-smp'', ''4'', ''-m'', ''4G'',
      ''-vga'', ''virtio'']
   @ (if b then [''-display'', ''none'', ''-vnc'', '':1'']
      else [''-display'', ''gtk,full-screen=on''])
   @ (if fs_exists w ''./boot/firmware/OVMF_CODE.fd''
      then [''-drive'', ''if=pflash,format=raw,readonly=on,file=./boot/firmware/OVMF_CODE.fd'',
            ''-drive'', ''if=pflash,format=raw,file=./boot/firmware/OVMF_VARS.fd'']
      else [])
   @ (if fs_exists w ''./devices/disk/disk.qcow2''
      then [''-drive'', ''file=./devices/disk/disk.qcow2,format=qcow2,if=virtio'']
      else [])
   @ (if fst (findISO e ComputerVM w) \<noteq> [] then [''-cdrom'', fst (findISO e ComputerVM w)] else [])
   @ [''-audiodev'', ''alsa,id=audio0'', ''-device'', ''intel-hda'',
      ''-device'', ''hda-duplex,audiodev=audio0'',
      ''-netdev'', ''user,id=net0'', ''-device'', ''virtio-net-pci,netdev=net0'',
      ''-device'', ''usb-ehci'', ''-device'', ''usb-tablet'',
      ''-rtc'', ''base=localtime,clock=host'']"
  unfolding fst_buildQEMUCommand Let_def disk_after_firmware iso_after_firmware [of e _ _ _ e]
  by (simp add: varsPath_def split del: if_split cong: if_cong)

text \<open>
  C8. A resource that is not there leaves nothing behind in the command line. Without
  the firmware no token is a pflash drive description, and every \<^verbatim>\<open>-drive\<close> flag that
  remains is the disk's and has its value. Without a removable-media image the
  \<^verbatim>\<open>-cdrom\<close> flag does not occur.
\<close>

theorem absent_resource_omitted:
  "(\<not> fs_exists w ''./boot/firmware/OVMF_CODE.fd'' \<longrightarrow>
      (\<forall>t \<in> set (fst (buildQEMUCommand e (setVNCMode b ComputerVM) w)).
          \<not> prefix ''if=pflash'' t)
      \<and> args_of ''-drive'' (fst (buildQEMUCommand e (setVNCMode b ComputerVM) w)) =
          (if fs_exists w ''./devices/disk/disk.qcow2''
           then [Some ''file=./devices/disk/disk.qcow2,format=qcow2,if=virtio'']
           else []))
   \<and> (fst (findISO e ComputerVM w) = [] \<longrightarrow>
      ''-cdrom'' \<notin> set (fst (buildQEMUCommand e (setVNCMode b ComputerVM) w)))"
proof -
  let ?cmd = "fst (buildQEMUCommand e (setVNCMode b ComputerVM) w)"
  let ?iso = "fst (findISO e ComputerVM w)"
  note tokens = buildQEMUCommand_tokens [of e b w]
  have pflash: "\<forall>t \<in> set ?cmd. \<not> prefix ''if=pflash'' t"
    if "\<not> fs_exists w ''./boot/firmware/OVMF_CODE.fd''"
    using that iso_shape [of e w] unfolding tokens by auto
  have drive: "args_of ''-drive'' ?cmd =
          (if fs_exists w ''./devices/disk/disk.qcow2''
           then [Some ''file=./devices/disk/disk.qcow2,format=qcow2,if=virtio'']
           else [])"
    if "\<not> fs_exists w ''./boot/firmware/OVMF_CODE.fd''"
    using that iso_shape [of e w] unfolding tokens by auto
  have cdrom: "''-cdrom'' \<notin> set ?cmd" if "?iso = []"
    using that unfolding tokens by simp
  from pflash drive cdrom show ?thesis by blast
qed

theorem absent_resource_omitted_witness:
  "\<not> fs_exists (fresh bare_fs) ''./boot/firmware/OVMF_CODE.fd''
   \<and> fst (findISO scenario_env ComputerVM (fresh bare_fs)) = []
   \<and> filter (prefix ''if=pflash'')
        (fst (buildQEMUCommand scenario_env (setVNCMode False ComputerVM) (fresh bare_fs))) = []
   \<and> args_of ''-drive'' (fst (buildQEMUCommand scenario_env (setVNCMode False ComputerVM) (fresh bare_fs)))
       = [Some ''file=./devices/disk/disk.qcow2,format=qcow2,if=virtio'']
   \<and> ''-cdrom'' \<notin> set (fst (buildQEMUCommand scenario_env (setVNCMode False ComputerVM) (fresh bare_fs)))"
proof -
  have fw: "\<not> fs_exists (fresh bare_fs) ''./boot/firmware/OVMF_CODE.fd''"
    by (simp add: fs_exists_def fresh_def bare_fs_def)
  have disk: "fs_exists (fresh bare_fs) ''./devices/disk/disk.qcow2''"
    by (simp add: fs_exists_def fresh_def bare_fs_def)
  have iso: "fst (findISO scenario_env ComputerVM (fresh bare_fs)) = []"
    by (simp add: fst_findISO fresh_def bare_fs_def path_join_def extension_def filename_def)
  from absent_resource_omitted [of "fresh bare_fs" scenario_env False] fw disk iso
  show ?thesis by simp
qed

section \<open>Booting, part by part\<close>

lemma boot_phases:
  "boot e m w0 =
     (case boot_components e m w0 of
        (diskOk, isoFile, w) \<Rightarrow>
          if \<not> diskOk \<and> \<not> isoFile \<noteq> [] then
            (Ret False, m, printLog ''ERROR'' ''No disk or ISO available!'' w)
          else
            (case boot_libraries e m w of
               (noVNCOk, websockifyOk, w) \<Rightarrow>
                 if useVNC m \<and> (\<not> noVNCOk \<or> \<not> websockifyOk) then
                   (Ret False, m,
                    printLog ''ERROR'' ''Required libraries not found for VNC mode!'' w)
                 else boot_start e m (isoFile \<noteq> []) w))"
  by (simp only: boot_def boot_components_def boot_libraries_def boot_start_def Let_def
        split_beta fst_conv snd_conv)

lemma proc_view_boot_components [simp]:
  "proc_view (snd (snd (boot_components e m w))) = proc_view w"
  by (simp add: boot_components_def Let_def split_beta split: bool.splits)

lemma diskOk_boot_components:
  "fst (boot_components e (setVNCMode b ComputerVM) w) =
     (fs_exists w ''./devices/disk/disk.qcow2'' \<or> system_status e disk_tool_cmd = 0)"
  by (simp add: boot_components_def Let_def split_beta fst_createDefaultDisk fs_exists_def
        fsys_createDirectories standard_elements disk_tool_cmd_def split: bool.splits)

lemma fsys_boot_components:
  assumes "p \<notin> set (concat (map path_elements standard_dirs))"
  shows "fsys (snd (snd (boot_components e (setVNCMode b ComputerVM) w))) p =
     (if p = ''./devices/disk/disk.qcow2'' \<and> fsys w p = None
      then map_option RegFile (qemu_img_leaves e)
      else fsys w p)"
proof -
  let ?m = "setVNCMode b ComputerVM"
  let ?w1 = "createDirectories e (printDebug ''Checking components..'' (printLog ''LOG'' ''Booting Computer..'' w))"
  let ?w2 = "snd (checkFile (firmwarePath ?m) ''Firmware'' ?w1)"
  let ?w3 = "snd (case checkFile (diskPath ?m) ''Disk'' ?w2 of
                (True, w) \<Rightarrow> (True, w)
              | (False, w) \<Rightarrow> createDefaultDisk e ?m w)"
  have p1: "fsys ?w1 p = fsys w p"
    using assms by (simp add: fsys_createDirectories)
  have d1: "fsys ?w1 ''./devices/disk/disk.qcow2'' = fsys w ''./devices/disk/disk.qcow2''"
    by (simp add: fsys_createDirectories standard_elements)
  have w3: "fsys ?w3 =
      (if fsys w ''./devices/disk/disk.qcow2'' = None
       then (case qemu_img_leaves e of
               None \<Rightarrow> fsys ?w1
             | Some bs \<Rightarrow> (fsys ?w1)(''./devices/disk/disk.qcow2'' \<mapsto> RegFile bs))
       else fsys ?w1)"
    by (simp add: split_beta fsys_createDefaultDisk d1 split: bool.splits option.splits)
  have final: "fsys (snd (snd (boot_components e ?m w))) = fsys ?w3"
    by (simp add: boot_components_def Let_def split_beta)
  show ?thesis
    unfolding final w3 using p1 d1 by (cases "qemu_img_leaves e") auto
qed

lemma iso_boot_components:
  "fst (snd (boot_components e (setVNCMode b ComputerVM) w)) = fst (findISO e' ComputerVM w)"
proof -
  let ?m = "setVNCMode b ComputerVM"
  let ?w1 = "createDirectories e (printDebug ''Checking components..'' (printLog ''LOG'' ''Booting Computer..'' w))"
  let ?w2 = "snd (checkFile (firmwarePath ?m) ''Firmware'' ?w1)"
  let ?w3 = "snd (case checkFile (diskPath ?m) ''Disk'' ?w2 of
                (True, w) \<Rightarrow> (True, w)
              | (False, w) \<Rightarrow> createDefaultDisk e ?m w)"
  have "fsys ?w3 ''./devices/rom'' = fsys ?w1 ''./devices/rom''"
    by (simp add: split_beta fsys_createDefaultDisk split: bool.splits option.splits)
  then have "fst (findISO e ?m ?w3) = fst (findISO e ?m ?w1)"
    by (intro findISO_frame) simp_all
  also have "\<dots> = fst (findISO e ?m (printDebug ''Checking components..'' (printLog ''LOG'' ''Booting Computer..'' w)))"
    by (rule findISO_createDirectories)
  also have "\<dots> = fst (findISO e' ComputerVM w)"
    by (intro findISO_frame) simp_all
  finally show ?thesis
    by (simp add: boot_components_def Let_def split_beta)
qed


lemma proc_view_boot_libraries [simp]:
  "proc_view (snd (snd (boot_libraries e m w))) = proc_view w"
  by (simp add: boot_libraries_def Let_def split_beta)

lemma fsys_boot_libraries [simp]:
  "fsys (snd (snd (boot_libraries e m w))) = fsys w"
  by (simp add: boot_libraries_def Let_def split_beta)

lemma noVNCOk_boot_libraries:
  "fst (boot_libraries e m w) = fs_exists w (noVNCPath m)"
  by (simp add: boot_libraries_def Let_def split_beta fs_exists_def)

lemma websockifyOk_boot_libraries:
  "fst (snd (boot_libraries e m w)) = (system_status e which_cmd = 0)"
  by (simp add: boot_libraries_def Let_def split_beta which_cmd_def)

lemma scan_args_iff: "scan_args i argv = (''--no-vnc'' \<in> set (drop i argv))"
proof (induction i argv rule: scan_args.induct)
  case (1 i argv)
  show ?case
  proof (cases "i < length argv")
    case False
    then show ?thesis by (subst scan_args.simps) simp
  next
    case True
    then have split: "drop i argv = argv ! i # drop (Suc i) argv"
      by (simp add: Cons_nth_drop_Suc)
    show ?thesis
    proof (cases "argv ! i = ''--no-vnc''")
      case True
      with \<open>i < length argv\<close> split show ?thesis
        by (subst scan_args.simps) simp
    next
      case False
      with \<open>i < length argv\<close> "1.IH" have "scan_args (i + 1) argv = (''--no-vnc'' \<in> set (drop (i + 1) argv))"
        by simp
      with False \<open>i < length argv\<close> split show ?thesis
        by (subst scan_args.simps) auto
    qed
  qed
qed

lemma boot_fails_without_source:
  assumes "\<not> fs_exists w ''./devices/disk/disk.qcow2''"
      and "fst (findISO e ComputerVM w) = []"
      and "system_status e disk_tool_cmd \<noteq> 0"
  shows "boot e (setVNCMode b ComputerVM) w =
           (Ret False, setVNCMode b ComputerVM,
            printLog ''ERROR'' ''No disk or ISO available!''
              (snd (snd (boot_components e (setVNCMode b ComputerVM) w))))"
  using assms
  by (simp add: boot_phases split_beta diskOk_boot_components iso_boot_components [of e b w e])

lemma boot_fails_without_libraries:
  assumes "\<not> fs_exists w ''./libraries/noVNC'' \<or> system_status e which_cmd \<noteq> 0"
  shows "fst (boot e (setVNCMode True ComputerVM) w) = Ret False
       \<and> proc_view (snd (snd (boot e (setVNCMode True ComputerVM) w))) = proc_view w
       \<and> fsys (snd (snd (boot e (setVNCMode True ComputerVM) w))) =
           fsys (snd (snd (boot_components e (setVNCMode True ComputerVM) w)))"
proof -
  let ?m = "setVNCMode True ComputerVM"
  let ?w3 = "snd (snd (boot_components e ?m w))"
  have "fsys ?w3 ''./libraries/noVNC'' = fsys w ''./libraries/noVNC''"
    by (simp add: fsys_boot_components standard_elements)
  then have novnc: "fs_exists ?w3 ''./libraries/noVNC'' = fs_exists w ''./libraries/noVNC''"
    by (simp add: fs_exists_def)
  show ?thesis
    using assms
    by (auto simp: boot_phases split_beta noVNCOk_boot_libraries websockifyOk_boot_libraries novnc)
qed

lemma main_failed:
  "fst (boot e (setVNCMode (\<not> scan_args 1 argv) ComputerVM) w) = Ret False \<Longrightarrow>
   main e argv w =
     Terminated 1 (emit (Stderr ''[ERROR] Failed to boot virtual machine!'')
       (snd (snd (boot e (setVNCMode (\<not> scan_args 1 argv) ComputerVM) w))))"
  by (cases "boot e (setVNCMode (\<not> scan_args 1 argv) ComputerVM) w") (simp add: main_def)

section \<open>Nothing to boot from\<close>

text \<open>
  C4. When the disk image is absent, no removable-media image is found and the disk
  tool fails, \<^verbatim>\<open>boot\<close> returns false in either display mode without a single fork, and
  \<^verbatim>\<open>main\<close> terminates with status 1 with the children, the fork count and the process
  events as they were.
\<close>

theorem unbootable_launches_nothing:
  assumes "\<not> fs_exists w ''./devices/disk/disk.qcow2''"
      and "fst (findISO e ComputerVM w) = []"
      and "system_status e disk_tool_cmd \<noteq> 0"
  shows "fst (boot e (setVNCMode b ComputerVM) w) = Ret False
       \<and> proc_view (snd (snd (boot e (setVNCMode b ComputerVM) w))) = proc_view w
       \<and> (case main e argv w of
             Terminated status w' \<Rightarrow> status = 1 \<and> proc_view w' = proc_view w
           | _ \<Rightarrow> False)"
proof -
  have failed: "fst (boot e (setVNCMode b' ComputerVM) w) = Ret False
      \<and> proc_view (snd (snd (boot e (setVNCMode b' ComputerVM) w))) = proc_view w" for b'
    by (simp add: boot_fails_without_source [OF assms])
  from failed [of "\<not> scan_args 1 argv"] main_failed [of e argv w]
  have "main e argv w =
     Terminated 1 (emit (Stderr ''[ERROR] Failed to boot virtual machine!'')
       (snd (snd (boot e (setVNCMode (\<not> scan_args 1 argv) ComputerVM) w))))"
    by blast
  with failed [of "\<not> scan_args 1 argv"] failed [of b] show ?thesis
    by (simp add: proc_view_emit)
qed

theorem unbootable_launches_nothing_witness:
  "\<not> fs_exists (fresh Map.empty) ''./devices/disk/disk.qcow2''
   \<and> fst (findISO failing_env ComputerVM (fresh Map.empty)) = []
   \<and> system_status failing_env disk_tool_cmd \<noteq> 0
   \<and> fst (boot failing_env (setVNCMode True ComputerVM) (fresh Map.empty)) = Ret False
   \<and> proc_view (snd (snd (boot failing_env (setVNCMode True ComputerVM) (fresh Map.empty))))
       = ([], 0, [])"
proof -
  have h1: "\<not> fs_exists (fresh Map.empty) ''./devices/disk/disk.qcow2''"
    by (simp add: fs_exists_def fresh_def)
  have h2: "fst (findISO failing_env ComputerVM (fresh Map.empty)) = []"
    by (simp add: fst_findISO fresh_def)
  have h3: "system_status failing_env disk_tool_cmd \<noteq> 0"
    by (simp add: failing_env_def)
  have pv: "proc_view (fresh Map.empty) = ([], 0, [])"
    by (simp add: proc_view_def fresh_def)
  from unbootable_launches_nothing [OF h1 h2 h3, of True "[]"] h1 h2 h3 pv
  show ?thesis by simp
qed

section \<open>Bridged display without its libraries\<close>

text \<open>
  C5. In bridged mode, when the web assets are absent or \<^verbatim>\<open>which websockify\<close> fails,
  \<^verbatim>\<open>boot\<close> returns false without a single fork, whatever the disk and the removable
  media are; \<^verbatim>\<open>main\<close>, started without \<^verbatim>\<open>--no-vnc\<close>, terminates with status 1.
\<close>

theorem bridged_needs_libraries:
  assumes "\<not> fs_exists w ''./libraries/noVNC'' \<or> system_status e which_cmd \<noteq> 0"
  shows "fst (boot e (setVNCMode True ComputerVM) w) = Ret False
       \<and> proc_view (snd (snd (boot e (setVNCMode True ComputerVM) w))) = proc_view w
       \<and> (''--no-vnc'' \<notin> set (drop 1 argv) \<longrightarrow>
            (case main e argv w of
               Terminated status w' \<Rightarrow> status = 1 \<and> proc_view w' = proc_view w
             | _ \<Rightarrow> False))"
proof -
  note failed = boot_fails_without_libraries [OF assms]
  have "case main e argv w of
               Terminated status w' \<Rightarrow> status = 1 \<and> proc_view w' = proc_view w
             | _ \<Rightarrow> False" if "''--no-vnc'' \<notin> set (drop 1 argv)"
  proof -
    from that have mode: "(\<not> scan_args 1 argv) = True"
      by (simp add: scan_args_iff)
    from failed main_failed [of e argv w] show ?thesis
      unfolding mode by (simp add: proc_view_emit)
  qed
  with failed show ?thesis by blast
qed

theorem bridged_needs_libraries_witness:
  "\<not> fs_exists (fresh bare_fs) ''./libraries/noVNC''
   \<and> fs_exists (fresh bare_fs) ''./devices/disk/disk.qcow2''
   \<and> fst (boot scenario_env (setVNCMode True ComputerVM) (fresh bare_fs)) = Ret False
   \<and> proc_view (snd (snd (boot scenario_env (setVNCMode True ComputerVM) (fresh bare_fs))))
       = ([], 0, [])"
proof -
  have n: "\<not> fs_exists (fresh bare_fs) ''./libraries/noVNC''"
    by (simp add: fs_exists_def fresh_def bare_fs_def)
  then have h: "\<not> fs_exists (fresh bare_fs) ''./libraries/noVNC''
      \<or> system_status scenario_env which_cmd \<noteq> 0"
    by simp
  have d: "fs_exists (fresh bare_fs) ''./devices/disk/disk.qcow2''"
    by (simp add: fs_exists_def fresh_def bare_fs_def)
  have pv: "proc_view (fresh bare_fs) = ([], 0, [])"
    by (simp add: proc_view_def fresh_def)
  from bridged_needs_libraries [OF h, of "[]"] n d pv
  show ?thesis by simp
qed

section \<open>Teardown\<close>

lemma trace_cleanup:
  "trace (cleanup m w) = trace w
     @ (if qemuPid m \<noteq> - 1 then [Kill (qemuPid m) SIGTERM, Waitpid (qemuPid m)] else [])
     @ (if websockifyPid m \<noteq> - 1
        then [Kill (websockifyPid m) SIGTERM, Waitpid (websockifyPid m)] else [])"
  by (simp add: cleanup_def kill_def waitpid_def emit_def)

lemma children_cleanup:
  "children (cleanup m w) =
     (let cs = (if qemuPid m \<noteq> - 1 then removeAll (qemuPid m) (children w) else children w)
      in if websockifyPid m \<noteq> - 1 then removeAll (websockifyPid m) cs else cs)"
  by (simp add: cleanup_def kill_def waitpid_def emit_def)

lemma cleanup_frame: "fsys (cleanup m w) = fsys w \<and> nforks (cleanup m w) = nforks w"
  by (simp add: cleanup_def kill_def waitpid_def emit_def)

text \<open>
  C1, as the code has it. \<^verbatim>\<open>cleanup\<close> asks the emulator to terminate and reaps it, and
  only then does the same for the display bridge: with both alive, the emulator's
  \<^verbatim>\<open>SIGTERM\<close> and its reaping precede the bridge's \<^verbatim>\<open>SIGTERM\<close>, and neither is a child
  afterwards. A pid of -1 is skipped; with both -1 the world is left as it was.
\<close>

theorem cleanup_emulator_first:
  "trace (cleanup m w) = trace w
     @ (if qemuPid m \<noteq> - 1 then [Kill (qemuPid m) SIGTERM, Waitpid (qemuPid m)] else [])
     @ (if websockifyPid m \<noteq> - 1
        then [Kill (websockifyPid m) SIGTERM, Waitpid (websockifyPid m)] else [])
   \<and> (qemuPid m \<noteq> - 1 \<and> websockifyPid m \<noteq> - 1 \<and> qemuPid m \<noteq> websockifyPid m \<longrightarrow>
        precedes (Kill (qemuPid m) SIGTERM) (Kill (websockifyPid m) SIGTERM)
          (drop (length (trace w)) (trace (cleanup m w)))
      \<and> precedes (Waitpid (qemuPid m)) (Kill (websockifyPid m) SIGTERM)
          (drop (length (trace w)) (trace (cleanup m w)))
      \<and> qemuPid m \<notin> set (children (cleanup m w))
      \<and> websockifyPid m \<notin> set (children (cleanup m w)))
   \<and> (qemuPid m = - 1 \<and> websockifyPid m = - 1 \<longrightarrow> cleanup m w = w)"
proof -
  have order: "precedes (Kill (qemuPid m) SIGTERM) (Kill (websockifyPid m) SIGTERM)
          (drop (length (trace w)) (trace (cleanup m w)))
      \<and> precedes (Waitpid (qemuPid m)) (Kill (websockifyPid m) SIGTERM)
          (drop (length (trace w)) (trace (cleanup m w)))"
    if "qemuPid m \<noteq> - 1" "websockifyPid m \<noteq> - 1" "qemuPid m \<noteq> websockifyPid m"
    using that by (simp add: trace_cleanup precedes_def)
  have reaped: "qemuPid m \<notin> set (children (cleanup m w))
      \<and> websockifyPid m \<notin> set (children (cleanup m w))"
    if "qemuPid m \<noteq> - 1" "websockifyPid m \<noteq> - 1"
    using that by (simp add: children_cleanup)
  have noop: "cleanup m w = w" if "qemuPid m = - 1" "websockifyPid m = - 1"
    using that by (simp add: cleanup_def)
  from order reaped noop trace_cleanup [of m w] show ?thesis by blast
qed

theorem cleanup_emulator_first_witness:
  "trace (cleanup supervising both_live) =
     [Kill 4001 SIGTERM, Waitpid 4001, Kill 4002 SIGTERM, Waitpid 4002]
   \<and> precedes (Kill 4001 SIGTERM) (Kill 4002 SIGTERM) (trace (cleanup supervising both_live))
   \<and> children (cleanup supervising both_live) = []
   \<and> cleanup ComputerVM both_live = both_live"
proof -
  have pids: "qemuPid supervising = 4001" "websockifyPid supervising = 4002"
    by (simp_all add: supervising_def)
  have t: "trace both_live = []"
    by (simp add: both_live_def)
  have c: "children (cleanup supervising both_live) = []"
    by (simp add: children_cleanup pids both_live_def)
  from cleanup_emulator_first [of supervising both_live]
       cleanup_emulator_first [of ComputerVM both_live] c
  show ?thesis by (simp add: pids t ComputerVM_def precedes_def)
qed

text \<open>
  The claim as stated, bridge first, fails on the supervisor with the children 4001
  (emulator) and 4002 (bridge): the bridge's \<^verbatim>\<open>SIGTERM\<close> does not precede the
  emulator's.
\<close>

theorem cleanup_bridge_first_counterexample:
  "\<not> precedes (Kill (websockifyPid supervising) SIGTERM) (Kill (qemuPid supervising) SIGTERM)
       (trace (cleanup supervising both_live))"
  by (simp add: trace_cleanup precedes_def supervising_def both_live_def)

section \<open>Launching\<close>

lemma proc_view_eqD:
  "proc_view w' = proc_view w \<Longrightarrow>
     children w' = children w \<and> nforks w' = nforks w
     \<and> filter is_proc (trace w') = filter is_proc (trace w)"
  by (simp add: proc_view_def)

lemma fork_view:
  assumes "proc_view w0 = proc_view w"
  shows "fst (fork e w0) = fork_ret e (nforks w)"
    and "proc_view (snd (fork e w0)) =
           (if 0 < fork_ret e (nforks w) then children w @ [fork_ret e (nforks w)] else children w,
            Suc (nforks w),
            filter is_proc (trace w) @ [Fork (fork_ret e (nforks w))])"
    and "fsys (snd (fork e w0)) = fsys w0"
  using proc_view_eqD [OF assms]
  by (simp_all add: fork_def Let_def proc_view_def emit_def)

lemma startQEMU_parent:
  assumes "0 < fork_ret e (nforks w)"
  shows "fst (startQEMU e m w) = Ret True"
    and "fst (snd (startQEMU e m w)) = m\<lparr>qemuPid := fork_ret e (nforks w)\<rparr>"
    and "proc_view (snd (snd (startQEMU e m w))) =
           (children w @ [fork_ret e (nforks w)], Suc (nforks w),
            filter is_proc (trace w) @ [Fork (fork_ret e (nforks w))])"
    and "fsys (snd (snd (startQEMU e m w))) = fsys (snd (buildQEMUCommand e m w))"
proof -
  let ?w1 = "snd (buildQEMUCommand e m (printLog ''INFO'' ''Starting QEMU virtual machine...'' w))"
  let ?cmd = "fst (buildQEMUCommand e m (printLog ''INFO'' ''Starting QEMU virtual machine...'' w))"
  let ?w2 = "printDebug (foldl (\<lambda>acc arg. acc @ arg @ '' '') [] ?cmd) (printDebug ''QEMU command:'' ?w1)"
  have pv: "proc_view ?w2 = proc_view w" by simp
  note f = fork_view [OF pv, of e]
  have pos: "0 < fst (fork e ?w2)" "fst (fork e ?w2) \<noteq> 0"
    using assms f(1) by simp_all
  have unfold: "startQEMU e m w =
      (Ret True, m\<lparr>qemuPid := fst (fork e ?w2)\<rparr>, sleep 3 (snd (fork e ?w2)))"
    using pos by (simp add: startQEMU_def Let_def split_beta)
  show "fst (startQEMU e m w) = Ret True"
    by (simp add: unfold)
  show "fst (snd (startQEMU e m w)) = m\<lparr>qemuPid := fork_ret e (nforks w)\<rparr>"
    by (simp add: unfold f(1))
  show "proc_view (snd (snd (startQEMU e m w))) =
           (children w @ [fork_ret e (nforks w)], Suc (nforks w),
            filter is_proc (trace w) @ [Fork (fork_ret e (nforks w))])"
    using assms by (simp add: unfold f(2))
  have "fsys ?w1 = fsys (snd (buildQEMUCommand e m w))"
    by (simp add: fsys_buildQEMUCommand fs_exists_def split: option.splits)
  then show "fsys (snd (snd (startQEMU e m w))) = fsys (snd (buildQEMUCommand e m w))"
    by (simp add: unfold f(3))
qed

lemma startWebsockify_fork_failed:
  assumes "useVNC m" and "fs_exists w (noVNCPath m)" and "fork_ret e (nforks w) < 0"
  shows "fst (startWebsockify e m w) = Ret False"
    and "fst (snd (startWebsockify e m w)) = m"
    and "proc_view (snd (snd (startWebsockify e m w))) =
           (children w, Suc (nforks w),
            filter is_proc (trace w) @ [Fork (fork_ret e (nforks w))])"
    and "fsys (snd (snd (startWebsockify e m w))) = fsys w"
proof -
  let ?w1 = "printLog ''INFO'' ''Starting websockify for noVNC...'' w"
  have pv: "proc_view ?w1 = proc_view w" by simp
  note f = fork_view [OF pv, of e]
  have neg: "\<not> 0 < fst (fork e ?w1)" "fst (fork e ?w1) \<noteq> 0"
    using assms(3) f(1) by simp_all
  have ex: "fs_exists ?w1 (noVNCPath m)"
    using assms(2) by (simp add: fs_exists_def)
  have unfold: "startWebsockify e m w =
      (Ret False, m, printLog ''ERROR'' ''Failed to fork websockify process!'' (snd (fork e ?w1)))"
    using assms(1) ex neg by (simp add: startWebsockify_def Let_def split_beta)
  show "fst (startWebsockify e m w) = Ret False" "fst (snd (startWebsockify e m w)) = m"
    by (simp_all add: unfold)
  show "proc_view (snd (snd (startWebsockify e m w))) =
           (children w, Suc (nforks w),
            filter is_proc (trace w) @ [Fork (fork_ret e (nforks w))])"
    using assms(3) by (simp add: unfold f(2))
  show "fsys (snd (snd (startWebsockify e m w))) = fsys w"
    by (simp add: unfold f(3))
qed

lemma proc_view_cleanup:
  "proc_view w = (cs, n, evs) \<Longrightarrow>
   proc_view (cleanup m w) =
     ((let cs' = (if qemuPid m \<noteq> - 1 then removeAll (qemuPid m) cs else cs)
       in if websockifyPid m \<noteq> - 1 then removeAll (websockifyPid m) cs' else cs'),
      n,
      evs @ (if qemuPid m \<noteq> - 1 then [Kill (qemuPid m) SIGTERM, Waitpid (qemuPid m)] else [])
          @ (if websockifyPid m \<noteq> - 1
             then [Kill (websockifyPid m) SIGTERM, Waitpid (websockifyPid m)] else []))"
  by (simp add: proc_view_def trace_cleanup children_cleanup cleanup_frame)

lemma proc_view_nforks: "proc_view w = (cs, n, evs) \<Longrightarrow> nforks w = n"
  by (simp add: proc_view_def)

lemma boot_start_rollback:
  assumes novnc: "fs_exists w ''./libraries/noVNC''"
      and emu: "0 < fork_ret e (nforks w)"
      and bridge: "fork_ret e (Suc (nforks w)) < 0"
  shows "fst (boot_start e (setVNCMode True ComputerVM) isoOk w) = Ret False"
    and "proc_view (snd (snd (boot_start e (setVNCMode True ComputerVM) isoOk w))) =
           (removeAll (fork_ret e (nforks w)) (children w), Suc (Suc (nforks w)),
            filter is_proc (trace w)
              @ [Fork (fork_ret e (nforks w)), Fork (fork_ret e (Suc (nforks w))),
                 Kill (fork_ret e (nforks w)) SIGTERM, Waitpid (fork_ret e (nforks w))])"
proof -
  let ?m = "setVNCMode True ComputerVM"
  let ?p = "fork_ret e (nforks w)"
  let ?q = "fork_ret e (Suc (nforks w))"
  let ?wd = "printDebug ''Starting Machine..'' w"
  define w0 where "w0 =
     (if isoOk \<and> fs_exists ?wd (diskPath ?m) then
        printLog ''INFO'' ''Booting from ISO with disk available!'' ?wd
      else if isoOk then
        printLog ''INFO'' ''Booting from ISO only!'' ?wd
      else
        printLog ''INFO'' ''There's no ISO on rom/, Booting from disk!'' ?wd)"
  have pv0: "proc_view w0 = proc_view w" by (simp add: w0_def)
  have fs0: "fsys w0 = fsys w" by (simp add: w0_def)
  from proc_view_eqD [OF pv0] have same: "children w0 = children w" "nforks w0 = nforks w"
    "filter is_proc (trace w0) = filter is_proc (trace w)" by simp_all
  have emu0: "0 < fork_ret e (nforks w0)" using emu same by simp
  note q = startQEMU_parent [OF emu0, of ?m]
  let ?m1 = "?m\<lparr>qemuPid := ?p\<rparr>"
  define w1 where "w1 = snd (snd (startQEMU e ?m w0))"
  have started: "startQEMU e ?m w0 = (Ret True, ?m1, w1)"
    using q(1,2) same by (cases "startQEMU e ?m w0") (simp add: w1_def)
  have pv1: "proc_view w1 = (children w @ [?p], Suc (nforks w), filter is_proc (trace w) @ [Fork ?p])"
    using q(3) same by (simp add: w1_def)
  have n1: "nforks w1 = Suc (nforks w)"
    by (rule proc_view_nforks [OF pv1])
  have "fsys w1 ''./libraries/noVNC'' = fsys w ''./libraries/noVNC''"
    by (simp add: w1_def q(4) fsys_buildQEMUCommand_other varsPath_def fs0)
  with novnc have novnc1: "fs_exists w1 (noVNCPath ?m1)"
    by (simp add: fs_exists_def setVNCMode_def ComputerVM_def)
  have use1: "useVNC ?m1" by (simp add: setVNCMode_def)
  have bridge1: "fork_ret e (nforks w1) < 0" using bridge n1 by simp
  note b = startWebsockify_fork_failed [OF use1 novnc1 bridge1]
  define w2 where "w2 = snd (snd (startWebsockify e ?m1 w1))"
  have failed: "startWebsockify e ?m1 w1 = (Ret False, ?m1, w2)"
    using b(1,2) by (cases "startWebsockify e ?m1 w1") (simp add: w2_def)
  from proc_view_eqD [of w1] pv1 have c1: "children w1 = children w @ [?p]"
    "filter is_proc (trace w1) = filter is_proc (trace w) @ [Fork ?p]"
    by (simp_all add: proc_view_def)
  have pv2: "proc_view w2 = (children w @ [?p], Suc (Suc (nforks w)),
      filter is_proc (trace w) @ [Fork ?p, Fork ?q])"
    using b(3) c1 n1 by (simp add: w2_def)
  have result: "boot_start e ?m isoOk w = (Ret False, ?m1, cleanup ?m1 w2)"
    unfolding boot_start_def Let_def w0_def [symmetric] started by (simp add: failed use1)
  have pids: "qemuPid ?m1 = ?p" "websockifyPid ?m1 = - 1"
    by (simp_all add: setVNCMode_def ComputerVM_def)
  have live: "?p \<noteq> - 1" using emu by simp
  show "fst (boot_start e ?m isoOk w) = Ret False"
    by (simp add: result)
  show "proc_view (snd (snd (boot_start e ?m isoOk w))) =
           (removeAll ?p (children w), Suc (Suc (nforks w)),
            filter is_proc (trace w) @ [Fork ?p, Fork ?q, Kill ?p SIGTERM, Waitpid ?p])"
    using live by (simp add: result proc_view_cleanup [OF pv2] pids)
qed

lemma boot_reaches_start:
  assumes "fs_exists w ''./devices/disk/disk.qcow2'' \<or> system_status e disk_tool_cmd = 0
           \<or> fst (findISO e ComputerVM w) \<noteq> []"
      and "b \<Longrightarrow> fs_exists w ''./libraries/noVNC'' \<and> system_status e which_cmd = 0"
  shows "boot e (setVNCMode b ComputerVM) w =
           boot_start e (setVNCMode b ComputerVM) (fst (findISO e ComputerVM w) \<noteq> [])
             (snd (snd (boot_libraries e (setVNCMode b ComputerVM)
                (snd (snd (boot_components e (setVNCMode b ComputerVM) w))))))"
proof -
  let ?m = "setVNCMode b ComputerVM"
  let ?w3 = "snd (snd (boot_components e ?m w))"
  have "fsys ?w3 ''./libraries/noVNC'' = fsys w ''./libraries/noVNC''"
    by (simp add: fsys_boot_components standard_elements)
  then have novnc: "fs_exists ?w3 ''./libraries/noVNC'' = fs_exists w ''./libraries/noVNC''"
    by (simp add: fs_exists_def)
  show ?thesis
    using assms
    by (auto simp: boot_phases split_beta diskOk_boot_components iso_boot_components [of e b w e]
          noVNCOk_boot_libraries websockifyOk_boot_libraries novnc)
qed

section \<open>Rollback\<close>

text \<open>
  C3. In bridged mode, when the checks pass, the emulator's fork succeeds and the
  bridge's fork fails, \<^verbatim>\<open>boot\<close> returns false only after it has sent \<^verbatim>\<open>SIGTERM\<close> to the
  emulator and reaped it: the process events of the attempt are the two forks, the
  signal and the wait, and the emulator is no child afterwards. Started with no
  children, the attempt ends with none.
\<close>

theorem bridge_failure_rolls_back:
  assumes "fs_exists w ''./devices/disk/disk.qcow2'' \<or> system_status e disk_tool_cmd = 0
           \<or> fst (findISO e ComputerVM w) \<noteq> []"
      and "fs_exists w ''./libraries/noVNC''"
      and "system_status e which_cmd = 0"
      and "0 < fork_ret e (nforks w)"
      and "fork_ret e (Suc (nforks w)) < 0"
  shows "fst (boot e (setVNCMode True ComputerVM) w) = Ret False
       \<and> children (snd (snd (boot e (setVNCMode True ComputerVM) w))) =
           removeAll (fork_ret e (nforks w)) (children w)
       \<and> filter is_proc (trace (snd (snd (boot e (setVNCMode True ComputerVM) w)))) =
           filter is_proc (trace w)
             @ [Fork (fork_ret e (nforks w)), Fork (fork_ret e (Suc (nforks w))),
                Kill (fork_ret e (nforks w)) SIGTERM, Waitpid (fork_ret e (nforks w))]"
proof -
  let ?m = "setVNCMode True ComputerVM"
  define w4 where "w4 = snd (snd (boot_libraries e ?m (snd (snd (boot_components e ?m w)))))"
  have pv: "proc_view w4 = proc_view w"
    by (simp add: w4_def)
  from proc_view_eqD [OF pv] have same: "children w4 = children w" "nforks w4 = nforks w"
    "filter is_proc (trace w4) = filter is_proc (trace w)" by simp_all
  have "fsys w4 ''./libraries/noVNC'' = fsys w ''./libraries/noVNC''"
    by (simp add: w4_def fsys_boot_components standard_elements)
  with assms(2) have novnc: "fs_exists w4 ''./libraries/noVNC''"
    by (simp add: fs_exists_def)
  have emu: "0 < fork_ret e (nforks w4)" and bridge: "fork_ret e (Suc (nforks w4)) < 0"
    using assms(4,5) same by simp_all
  have reach: "boot e ?m w = boot_start e ?m (fst (findISO e ComputerVM w) \<noteq> []) w4"
    unfolding w4_def using assms(1,2,3) by (intro boot_reaches_start) simp_all
  note r = boot_start_rollback [OF novnc emu bridge, of "fst (findISO e ComputerVM w) \<noteq> []"]
  from r(2) have "children (snd (snd (boot e ?m w))) = removeAll (fork_ret e (nforks w)) (children w)"
    and "filter is_proc (trace (snd (snd (boot e ?m w)))) =
           filter is_proc (trace w)
             @ [Fork (fork_ret e (nforks w)), Fork (fork_ret e (Suc (nforks w))),
                Kill (fork_ret e (nforks w)) SIGTERM, Waitpid (fork_ret e (nforks w))]"
    unfolding reach by (simp_all add: proc_view_def same)
  with r(1) show ?thesis unfolding reach by simp
qed

theorem bridge_failure_rolls_back_witness:
  "fs_exists (fresh scenario_fs) ''./devices/disk/disk.qcow2''
   \<and> fs_exists (fresh scenario_fs) ''./libraries/noVNC''
   \<and> system_status second_fork_fails which_cmd = 0
   \<and> 0 < fork_ret second_fork_fails (nforks (fresh scenario_fs))
   \<and> fork_ret second_fork_fails (Suc (nforks (fresh scenario_fs))) < 0
   \<and> fst (boot second_fork_fails (setVNCMode True ComputerVM) (fresh scenario_fs)) = Ret False
   \<and> children (snd (snd (boot second_fork_fails (setVNCMode True ComputerVM) (fresh scenario_fs)))) = []
   \<and> filter is_proc
        (trace (snd (snd (boot second_fork_fails (setVNCMode True ComputerVM) (fresh scenario_fs)))))
       = [Fork 4001, Fork (- 1), Kill 4001 SIGTERM, Waitpid 4001]"
proof -
  have d: "fs_exists (fresh scenario_fs) ''./devices/disk/disk.qcow2''"
    and n: "fs_exists (fresh scenario_fs) ''./libraries/noVNC''"
    by (simp_all add: fs_exists_def fresh_def scenario_fs_def)
  have s: "system_status second_fork_fails which_cmd = 0"
    by (simp add: second_fork_fails_def scenario_env_def)
  have f1: "0 < fork_ret second_fork_fails (nforks (fresh scenario_fs))"
    and f2: "fork_ret second_fork_fails (Suc (nforks (fresh scenario_fs))) < 0"
    by (simp_all add: second_fork_fails_def fresh_def)
  have d': "fs_exists (fresh scenario_fs) ''./devices/disk/disk.qcow2''
      \<or> system_status second_fork_fails disk_tool_cmd = 0
      \<or> fst (findISO second_fork_fails ComputerVM (fresh scenario_fs)) \<noteq> []"
    using d by simp
  have v: "fork_ret second_fork_fails (nforks (fresh scenario_fs)) = 4001"
    "fork_ret second_fork_fails (Suc (nforks (fresh scenario_fs))) = - 1"
    "children (fresh scenario_fs) = []" "trace (fresh scenario_fs) = []"
    by (simp_all add: second_fork_fails_def fresh_def)
  from bridge_failure_rolls_back [OF d' n s f1 f2] d n s f1 f2
  show ?thesis unfolding v by simp
qed

section \<open>Disk creation comes first\<close>

lemma trace_printLog: "trace (printLog l s w) = trace w @ [Stdout (''['' @ l @ ''] '' @ s)]"
  by (simp add: printLog_def emit_def)

lemma trace_printDebug: "trace (printDebug s w) = trace w @ [Stdout (''[DEBUG] '' @ s)]"
  by (simp add: printDebug_def emit_def)

lemma prefix_printLog: "prefix (trace w) (trace (printLog l s w))"
  by (simp add: trace_printLog)

lemma prefix_printDebug: "prefix (trace w) (trace (printDebug s w))"
  by (simp add: trace_printDebug)

lemma trace_try_create: "trace (snd (try_create ps w)) = trace w"
  by (simp add: try_create_mkdirs trace_mkdirs)

lemma prefix_createDirectories: "prefix (trace w) (trace (createDirectories e w))"
  using createDirectories_cases [of e w]
  by (auto simp: trace_try_create trace_printLog)

lemma prefix_checkFile: "prefix (trace w) (trace (snd (checkFile p n w)))"
  by (simp add: checkFile_def trace_printDebug)

lemma prefix_findISO: "prefix (trace w) (trace (snd (findISO e m w)))"
  by (simp add: findISO_def Let_def trace_printDebug split: option.splits)

lemma trace_createDefaultDisk:
  assumes "\<not> fs_exists w ''./devices/disk/disk.qcow2''"
  shows "\<exists>line. trace (snd (createDefaultDisk e (setVNCMode b ComputerVM) w)) =
           trace w @ [Stdout ''[INFO] Creating default 20GB disk...'',
                      System disk_tool_cmd, Stdout line]"
  using assms
  by (simp add: createDefaultDisk_def Let_def split_beta system_def printLog_def emit_def
        put_file_def disk_tool_cmd_def split: option.splits)

lemma trace_boot_components:
  assumes "\<not> fs_exists w ''./devices/disk/disk.qcow2''"
  shows "\<exists>A B. trace (snd (snd (boot_components e (setVNCMode b ComputerVM) w))) =
           trace w @ A @ System disk_tool_cmd # B"
proof -
  let ?m = "setVNCMode b ComputerVM"
  define w1 where "w1 = createDirectories e (printDebug ''Checking components..''
      (printLog ''LOG'' ''Booting Computer..'' w))"
  define w2 where "w2 = snd (checkFile (diskPath ?m) ''Disk''
      (snd (checkFile (firmwarePath ?m) ''Firmware'' w1)))"
  define w3 where "w3 = snd (createDefaultDisk e ?m w2)"
  define w5 where "w5 = snd (snd (boot_components e ?m w))"
  have d1: "fsys w1 ''./devices/disk/disk.qcow2'' = None"
    using assms by (simp add: w1_def fsys_createDirectories standard_elements fs_exists_def)
  then have d2: "\<not> fs_exists w2 ''./devices/disk/disk.qcow2''"
    by (simp add: w2_def fs_exists_def)
  have "prefix (trace w) (trace w1)"
    unfolding w1_def
    by (blast intro: prefix_order.trans prefix_printLog prefix_printDebug prefix_createDirectories)
  also have "prefix (trace w1) (trace w2)"
    unfolding w2_def by (blast intro: prefix_order.trans prefix_checkFile)
  finally obtain A where A: "trace w2 = trace w @ A"
    by (auto simp: prefix_def)
  from trace_createDefaultDisk [OF d2, of e b] obtain line where
    mid: "trace w3 = trace w2 @ [Stdout ''[INFO] Creating default 20GB disk...'',
                      System disk_tool_cmd, Stdout line]"
    unfolding w3_def by blast
  have w5: "w5 = (let w4 = snd (findISO e ?m w3)
                  in if \<not> fst (findISO e ?m w3) \<noteq> [] then printDebug ''ISO available.. No'' w4
                     else printDebug ''ISO available.. Yes'' w4)"
    using d1
    by (simp add: w5_def w3_def w2_def w1_def boot_components_def Let_def split_beta)
  have "prefix (trace w3) (trace w5)"
    unfolding w5 Let_def
    using prefix_findISO [of w3 e ?m] by (auto simp: trace_printDebug prefix_def)
  then obtain B where B: "trace w5 = trace w3 @ B"
    by (auto simp: prefix_def)
  have "trace w5 = trace w @ (A @ [Stdout ''[INFO] Creating default 20GB disk...''])
      @ System disk_tool_cmd # (Stdout line # B)"
    by (simp add: B mid A)
  then show ?thesis unfolding w5_def by blast
qed

lemma trace_boot_libraries:
  "\<exists>C. trace (snd (snd (boot_libraries e m w))) =
          trace w @ Stdout ''[DEBUG] Checking Libraries..'' # C"
  by (simp add: boot_libraries_def Let_def split_beta checkFile_def system_def printDebug_def
        emit_def)

lemma boot_fails_at_libraries:
  assumes "fs_exists w ''./devices/disk/disk.qcow2'' \<or> system_status e disk_tool_cmd = 0
           \<or> fst (findISO e ComputerVM w) \<noteq> []"
      and "\<not> fs_exists w ''./libraries/noVNC'' \<or> system_status e which_cmd \<noteq> 0"
  shows "boot e (setVNCMode True ComputerVM) w =
           (Ret False, setVNCMode True ComputerVM,
            printLog ''ERROR'' ''Required libraries not found for VNC mode!''
              (snd (snd (boot_libraries e (setVNCMode True ComputerVM)
                 (snd (snd (boot_components e (setVNCMode True ComputerVM) w)))))))"
proof -
  let ?m = "setVNCMode True ComputerVM"
  let ?w3 = "snd (snd (boot_components e ?m w))"
  have "fsys ?w3 ''./libraries/noVNC'' = fsys w ''./libraries/noVNC''"
    by (simp add: fsys_boot_components standard_elements)
  then have novnc: "fs_exists ?w3 ''./libraries/noVNC'' = fs_exists w ''./libraries/noVNC''"
    by (simp add: fs_exists_def)
  show ?thesis
    using assms
    by (auto simp: boot_phases split_beta diskOk_boot_components iso_boot_components [of e True w e]
          noVNCOk_boot_libraries websockifyOk_boot_libraries novnc)
qed

text \<open>
  C9. In bridged mode with the disk image absent, the disk tool is run before the
  libraries are checked. When the boot then fails for want of the web assets or of
  \<^verbatim>\<open>websockify\<close>, \<^verbatim>\<open>boot\<close> returns false and whatever the tool left at the image path is
  still there: nothing on the failure path removes it.
\<close>

theorem disk_created_before_library_check:
  assumes "\<not> fs_exists w ''./devices/disk/disk.qcow2''"
      and "system_status e disk_tool_cmd = 0 \<or> fst (findISO e ComputerVM w) \<noteq> []"
      and "\<not> fs_exists w ''./libraries/noVNC'' \<or> system_status e which_cmd \<noteq> 0"
  shows "fst (boot e (setVNCMode True ComputerVM) w) = Ret False
       \<and> fsys (snd (snd (boot e (setVNCMode True ComputerVM) w))) ''./devices/disk/disk.qcow2''
           = map_option RegFile (qemu_img_leaves e)
       \<and> (\<exists>A B C. trace (snd (snd (boot e (setVNCMode True ComputerVM) w))) =
             trace w @ A @ System disk_tool_cmd # B
               @ Stdout ''[DEBUG] Checking Libraries..'' # C
               @ [Stdout ''[ERROR] Required libraries not found for VNC mode!''])"
proof -
  let ?m = "setVNCMode True ComputerVM"
  define w3 where "w3 = snd (snd (boot_components e ?m w))"
  define w4 where "w4 = snd (snd (boot_libraries e ?m w3))"
  have source: "fs_exists w ''./devices/disk/disk.qcow2'' \<or> system_status e disk_tool_cmd = 0
           \<or> fst (findISO e ComputerVM w) \<noteq> []"
    using assms(2) by blast
  have result: "boot e ?m w =
      (Ret False, ?m, printLog ''ERROR'' ''Required libraries not found for VNC mode!'' w4)"
    unfolding w4_def w3_def by (rule boot_fails_at_libraries [OF source assms(3)])
  have "fsys w3 ''./devices/disk/disk.qcow2'' = map_option RegFile (qemu_img_leaves e)"
    using assms(1) by (simp add: w3_def fsys_boot_components standard_elements fs_exists_def)
  then have disk: "fsys (snd (snd (boot e ?m w))) ''./devices/disk/disk.qcow2''
      = map_option RegFile (qemu_img_leaves e)"
    by (simp add: result w4_def)
  from trace_boot_components [OF assms(1), of e True] obtain A B where
    t3: "trace w3 = trace w @ A @ System disk_tool_cmd # B"
    unfolding w3_def by blast
  from trace_boot_libraries [of e ?m w3] obtain C where
    t4: "trace w4 = trace w3 @ Stdout ''[DEBUG] Checking Libraries..'' # C"
    unfolding w4_def by blast
  have "trace (snd (snd (boot e ?m w))) =
      trace w @ A @ System disk_tool_cmd # B
        @ Stdout ''[DEBUG] Checking Libraries..'' # C
        @ [Stdout ''[ERROR] Required libraries not found for VNC mode!'']"
    by (simp add: result trace_printLog t4 t3)
  then have order: "\<exists>A B C. trace (snd (snd (boot e ?m w))) =
             trace w @ A @ System disk_tool_cmd # B
               @ Stdout ''[DEBUG] Checking Libraries..'' # C
               @ [Stdout ''[ERROR] Required libraries not found for VNC mode!'']"
    by blast
  from result disk order show ?thesis by simp
qed

theorem disk_created_before_library_check_witness:
  "\<not> fs_exists (fresh assets_only_fs) ''./devices/disk/disk.qcow2''
   \<and> system_status no_bridge_env disk_tool_cmd = 0
   \<and> system_status no_bridge_env which_cmd \<noteq> 0
   \<and> fst (boot no_bridge_env (setVNCMode True ComputerVM) (fresh assets_only_fs)) = Ret False
   \<and> fsys (snd (snd (boot no_bridge_env (setVNCMode True ComputerVM) (fresh assets_only_fs))))
        ''./devices/disk/disk.qcow2'' = Some (RegFile [0x51, 0x46, 0x49, 0xFB])"
proof -
  have d: "\<not> fs_exists (fresh assets_only_fs) ''./devices/disk/disk.qcow2''"
    by (simp add: fs_exists_def fresh_def assets_only_fs_def)
  have t: "system_status no_bridge_env disk_tool_cmd = 0"
    by (simp add: no_bridge_env_def disk_tool_cmd_def which_cmd_def)
  have l: "system_status no_bridge_env which_cmd \<noteq> 0"
    by (simp add: no_bridge_env_def)
  have leaves: "qemu_img_leaves no_bridge_env = Some [0x51, 0x46, 0x49, 0xFB]"
    by (simp add: no_bridge_env_def)
  from t have t': "system_status no_bridge_env disk_tool_cmd = 0
      \<or> fst (findISO no_bridge_env ComputerVM (fresh assets_only_fs)) \<noteq> []"
    by simp
  from l have l': "\<not> fs_exists (fresh assets_only_fs) ''./libraries/noVNC''
      \<or> system_status no_bridge_env which_cmd \<noteq> 0"
    by simp
  from disk_created_before_library_check [OF d t' l'] d t l
  show ?thesis by (simp add: leaves)
qed

section \<open>Signals\<close>

lemma startWebsockify_parent:
  assumes "useVNC m" and "fs_exists w (noVNCPath m)" and "0 < fork_ret e (nforks w)"
  shows "fst (startWebsockify e m w) = Ret True"
    and "fst (snd (startWebsockify e m w)) = m\<lparr>websockifyPid := fork_ret e (nforks w)\<rparr>"
    and "proc_view (snd (snd (startWebsockify e m w))) =
           (children w @ [fork_ret e (nforks w)], Suc (nforks w),
            filter is_proc (trace w) @ [Fork (fork_ret e (nforks w))])"
proof -
  let ?w1 = "printLog ''INFO'' ''Starting websockify for noVNC...'' w"
  have pv: "proc_view ?w1 = proc_view w" by simp
  note f = fork_view [OF pv, of e]
  have pos: "0 < fst (fork e ?w1)" "fst (fork e ?w1) \<noteq> 0"
    using assms(3) f(1) by simp_all
  have ex: "fs_exists ?w1 (noVNCPath m)"
    using assms(2) by (simp add: fs_exists_def)
  have unfold: "startWebsockify e m w =
      (Ret True, m\<lparr>websockifyPid := fst (fork e ?w1)\<rparr>, sleep 2 (snd (fork e ?w1)))"
    using assms(1) ex pos by (simp add: startWebsockify_def Let_def split_beta)
  show "fst (startWebsockify e m w) = Ret True"
    by (simp add: unfold)
  show "fst (snd (startWebsockify e m w)) = m\<lparr>websockifyPid := fork_ret e (nforks w)\<rparr>"
    by (simp add: unfold f(1))
  show "proc_view (snd (snd (startWebsockify e m w))) =
           (children w @ [fork_ret e (nforks w)], Suc (nforks w),
            filter is_proc (trace w) @ [Fork (fork_ret e (nforks w))])"
    using assms(3) by (simp add: unfold f(2))
qed

lemma boot_start_bridged:
  assumes novnc: "fs_exists w ''./libraries/noVNC''"
      and emu: "0 < fork_ret e (nforks w)"
      and bridge: "0 < fork_ret e (Suc (nforks w))"
  shows "fst (boot_start e (setVNCMode True ComputerVM) isoOk w) = Ret True"
    and "fst (snd (boot_start e (setVNCMode True ComputerVM) isoOk w)) =
           (setVNCMode True ComputerVM)
             \<lparr>qemuPid := fork_ret e (nforks w), websockifyPid := fork_ret e (Suc (nforks w))\<rparr>"
    and "proc_view (snd (snd (boot_start e (setVNCMode True ComputerVM) isoOk w))) =
           (children w @ [fork_ret e (nforks w), fork_ret e (Suc (nforks w))],
            Suc (Suc (nforks w)),
            filter is_proc (trace w)
              @ [Fork (fork_ret e (nforks w)), Fork (fork_ret e (Suc (nforks w)))])"
proof -
  let ?m = "setVNCMode True ComputerVM"
  let ?p = "fork_ret e (nforks w)"
  let ?q = "fork_ret e (Suc (nforks w))"
  let ?wd = "printDebug ''Starting Machine..'' w"
  define w0 where "w0 =
     (if isoOk \<and> fs_exists ?wd (diskPath ?m) then
        printLog ''INFO'' ''Booting from ISO with disk available!'' ?wd
      else if isoOk then
        printLog ''INFO'' ''Booting from ISO only!'' ?wd
      else
        printLog ''INFO'' ''There's no ISO on rom/, Booting from disk!'' ?wd)"
  have pv0: "proc_view w0 = proc_view w" by (simp add: w0_def)
  have fs0: "fsys w0 = fsys w" by (simp add: w0_def)
  from proc_view_eqD [OF pv0] have same: "children w0 = children w" "nforks w0 = nforks w"
    "filter is_proc (trace w0) = filter is_proc (trace w)" by simp_all
  have emu0: "0 < fork_ret e (nforks w0)" using emu same by simp
  note q = startQEMU_parent [OF emu0, of ?m]
  let ?m1 = "?m\<lparr>qemuPid := ?p\<rparr>"
  define w1 where "w1 = snd (snd (startQEMU e ?m w0))"
  have started: "startQEMU e ?m w0 = (Ret True, ?m1, w1)"
    using q(1,2) same by (cases "startQEMU e ?m w0") (simp add: w1_def)
  have pv1: "proc_view w1 = (children w @ [?p], Suc (nforks w), filter is_proc (trace w) @ [Fork ?p])"
    using q(3) same by (simp add: w1_def)
  have n1: "nforks w1 = Suc (nforks w)"
    by (rule proc_view_nforks [OF pv1])
  have "fsys w1 ''./libraries/noVNC'' = fsys w ''./libraries/noVNC''"
    by (simp add: w1_def q(4) fsys_buildQEMUCommand_other varsPath_def fs0)
  with novnc have novnc1: "fs_exists w1 (noVNCPath ?m1)"
    by (simp add: fs_exists_def setVNCMode_def ComputerVM_def)
  have use1: "useVNC ?m1" by (simp add: setVNCMode_def)
  have bridge1: "0 < fork_ret e (nforks w1)" using bridge n1 by simp
  note b = startWebsockify_parent [OF use1 novnc1 bridge1]
  let ?m2 = "?m1\<lparr>websockifyPid := ?q\<rparr>"
  define w2 where "w2 = snd (snd (startWebsockify e ?m1 w1))"
  have bridged: "startWebsockify e ?m1 w1 = (Ret True, ?m2, w2)"
    using b(1,2) n1 by (cases "startWebsockify e ?m1 w1") (simp add: w2_def)
  from proc_view_eqD [of w1] pv1 have c1: "children w1 = children w @ [?p]"
    "filter is_proc (trace w1) = filter is_proc (trace w) @ [Fork ?p]"
    by (simp_all add: proc_view_def)
  have pv2: "proc_view w2 = (children w @ [?p, ?q], Suc (Suc (nforks w)),
      filter is_proc (trace w) @ [Fork ?p, Fork ?q])"
    using b(3) c1 n1 by (simp add: w2_def)
  have result: "boot_start e ?m isoOk w =
      (Ret True, ?m2,
       printLog ''INFO''
         ''Port 8080 For Machine Opened! Go to http://localhost:8080/vnc.html?resize=remote&autoconnect=true''
         w2)"
    unfolding boot_start_def Let_def w0_def [symmetric] started by (simp add: bridged use1)
  show "fst (boot_start e ?m isoOk w) = Ret True"
    by (simp add: result)
  show "fst (snd (boot_start e ?m isoOk w)) = ?m\<lparr>qemuPid := ?p, websockifyPid := ?q\<rparr>"
    by (simp add: result)
  show "proc_view (snd (snd (boot_start e ?m isoOk w))) =
           (children w @ [?p, ?q], Suc (Suc (nforks w)),
            filter is_proc (trace w) @ [Fork ?p, Fork ?q])"
    by (simp add: result pv2)
qed

lemma scenario_running:
  "\<exists>w. main scenario_env [''computer''] (fresh scenario_fs) =
          Running (ComputerVM\<lparr>qemuPid := 4001, websockifyPid := 4002\<rparr>) w
        \<and> proc_view w = ([4001, 4002], 2, [Fork 4001, Fork 4002])"
proof -
  let ?m = "setVNCMode True ComputerVM"
  let ?w = "fresh scenario_fs"
  define w4 where "w4 = snd (snd (boot_libraries scenario_env ?m (snd (snd (boot_components scenario_env ?m ?w)))))"
  have d: "fs_exists ?w ''./devices/disk/disk.qcow2''" and n: "fs_exists ?w ''./libraries/noVNC''"
    by (simp_all add: fs_exists_def fresh_def scenario_fs_def)
  have s: "system_status scenario_env which_cmd = 0"
    by (simp add: scenario_env_def)
  have reach: "boot scenario_env ?m ?w =
      boot_start scenario_env ?m (fst (findISO scenario_env ComputerVM ?w) \<noteq> []) w4"
    unfolding w4_def using d n s by (intro boot_reaches_start) simp_all
  have pv: "proc_view w4 = proc_view ?w"
    by (simp add: w4_def)
  then have v4: "children w4 = []" "nforks w4 = 0" "filter is_proc (trace w4) = []"
    by (simp_all add: proc_view_def fresh_def)
  have "fsys w4 ''./libraries/noVNC'' = fsys ?w ''./libraries/noVNC''"
    by (simp add: w4_def fsys_boot_components standard_elements)
  with n have n4: "fs_exists w4 ''./libraries/noVNC''"
    by (simp add: fs_exists_def)
  have f1: "0 < fork_ret scenario_env (nforks w4)" and f2: "0 < fork_ret scenario_env (Suc (nforks w4))"
    by (simp_all add: v4 scenario_env_def)
  note r = boot_start_bridged [OF n4 f1 f2, of "fst (findISO scenario_env ComputerVM ?w) \<noteq> []"]
  define w5 where "w5 = snd (snd (boot scenario_env ?m ?w))"
  have mode: "scan_args 1 [''computer''] = False"
    by (simp add: scan_args_iff)
  have pids: "fork_ret scenario_env 0 = 4001" "fork_ret scenario_env (Suc 0) = 4002"
    by (simp_all add: scenario_env_def)
  have b: "boot scenario_env ?m ?w =
      (Ret True, ComputerVM\<lparr>qemuPid := 4001, websockifyPid := 4002\<rparr>, w5)"
    using r(1,2) unfolding reach [symmetric] v4 pids
    by (cases "boot scenario_env ?m ?w") (simp add: w5_def setVNCMode_def ComputerVM_def)
  have "proc_view w5 = ([4001, 4002], 2, [Fork 4001, Fork 4002])"
    using r(3) unfolding reach [symmetric] v4 pids by (simp add: w5_def numeral_2_eq_2)
  moreover have "main scenario_env [''computer''] ?w =
      Running (ComputerVM\<lparr>qemuPid := 4001, websockifyPid := 4002\<rparr>) w5"
    unfolding main_def Let_def mode by (simp add: b)
  ultimately show ?thesis by blast
qed

text \<open>
  C2 fails on the code. Started without arguments on the scenario's tree, the program
  reaches its idle loop with the children 4001 and 4002. A \<^verbatim>\<open>SIGTERM\<close> then makes it
  print its farewell and exit with status 0: no signal is sent to either child, neither
  is reaped, and both are still there when the program has terminated.
\<close>

theorem signal_skips_teardown:
  "(case main scenario_env [''computer''] (fresh scenario_fs) of
      Running m w \<Rightarrow> qemuPid m = 4001 \<and> websockifyPid m = 4002 \<and> children w = [4001, 4002]
    | _ \<Rightarrow> False)
   \<and> (case run (main scenario_env [''computer''] (fresh scenario_fs)) [Tick, Signal SIGTERM] of
        Terminated status w \<Rightarrow>
          status = 0 \<and> children w = [4001, 4002]
          \<and> filter is_proc (trace w) = [Fork 4001, Fork 4002]
      | _ \<Rightarrow> False)"
proof -
  from scenario_running obtain w where
    m: "main scenario_env [''computer''] (fresh scenario_fs) =
          Running (ComputerVM\<lparr>qemuPid := 4001, websockifyPid := 4002\<rparr>) w"
    and pv: "proc_view w = ([4001, 4002], 2, [Fork 4001, Fork 4002])"
    by blast
  from pv have c: "children w = [4001, 4002]" "filter is_proc (trace w) = [Fork 4001, Fork 4002]"
    by (simp_all add: proc_view_def)
  show ?thesis
    unfolding m
    by (simp add: run_def signalHandler_def sleep_def emit_def c)
qed

section \<open>The command line of the program\<close>

lemma useVNC_startQEMU: "useVNC (fst (snd (startQEMU e m w))) = useVNC m"
  by (simp add: startQEMU_def Let_def split_beta)

lemma useVNC_startWebsockify: "useVNC (fst (snd (startWebsockify e m w))) = useVNC m"
  by (simp add: startWebsockify_def Let_def split_beta)

lemma useVNC_boot_start: "useVNC (fst (snd (boot_start e m isoOk w))) = useVNC m"
proof -
  define w0 where "w0 =
     (if isoOk \<and> fs_exists (printDebug ''Starting Machine..'' w) (diskPath m) then
        printLog ''INFO'' ''Booting from ISO with disk available!'' (printDebug ''Starting Machine..'' w)
      else if isoOk then
        printLog ''INFO'' ''Booting from ISO only!'' (printDebug ''Starting Machine..'' w)
      else
        printLog ''INFO'' ''There's no ISO on rom/, Booting from disk!'' (printDebug ''Starting Machine..'' w))"
  obtain r1 m1 w1 where q: "startQEMU e m w0 = (r1, m1, w1)"
    by (cases "startQEMU e m w0")
  with useVNC_startQEMU [of e m w0] have u1: "useVNC m1 = useVNC m" by simp
  obtain r2 m2 w2 where b: "startWebsockify e m1 w1 = (r2, m2, w2)"
    by (cases "startWebsockify e m1 w1")
  with useVNC_startWebsockify [of e m1 w1] have u2: "useVNC m2 = useVNC m1" by simp
  have "useVNC (fst (snd (boot_start e m isoOk w))) = useVNC m"
    unfolding boot_start_def Let_def w0_def [symmetric] q
    using u1 u2 b by (simp split: ctl.splits bool.splits)
  then show ?thesis .
qed

lemma useVNC_boot: "useVNC (fst (snd (boot e m w))) = useVNC m"
  by (simp add: boot_phases split_beta useVNC_boot_start)


lemma boot_start_direct:
  assumes emu: "0 < fork_ret e (nforks w)"
  shows "fst (boot_start e (setVNCMode False ComputerVM) isoOk w) = Ret True"
    and "fst (snd (boot_start e (setVNCMode False ComputerVM) isoOk w)) =
           (setVNCMode False ComputerVM)\<lparr>qemuPid := fork_ret e (nforks w)\<rparr>"
    and "proc_view (snd (snd (boot_start e (setVNCMode False ComputerVM) isoOk w))) =
           (children w @ [fork_ret e (nforks w)], Suc (nforks w),
            filter is_proc (trace w) @ [Fork (fork_ret e (nforks w))])"
proof -
  let ?m = "setVNCMode False ComputerVM"
  let ?p = "fork_ret e (nforks w)"
  let ?wd = "printDebug ''Starting Machine..'' w"
  define w0 where "w0 =
     (if isoOk \<and> fs_exists ?wd (diskPath ?m) then
        printLog ''INFO'' ''Booting from ISO with disk available!'' ?wd
      else if isoOk then
        printLog ''INFO'' ''Booting from ISO only!'' ?wd
      else
        printLog ''INFO'' ''There's no ISO on rom/, Booting from disk!'' ?wd)"
  have pv0: "proc_view w0 = proc_view w" by (simp add: w0_def)
  from proc_view_eqD [OF pv0] have same: "children w0 = children w" "nforks w0 = nforks w"
    "filter is_proc (trace w0) = filter is_proc (trace w)" by simp_all
  have emu0: "0 < fork_ret e (nforks w0)" using emu same by simp
  note q = startQEMU_parent [OF emu0, of ?m]
  let ?m1 = "?m\<lparr>qemuPid := ?p\<rparr>"
  define w1 where "w1 = snd (snd (startQEMU e ?m w0))"
  have started: "startQEMU e ?m w0 = (Ret True, ?m1, w1)"
    using q(1,2) same by (cases "startQEMU e ?m w0") (simp add: w1_def)
  have pv1: "proc_view w1 = (children w @ [?p], Suc (nforks w), filter is_proc (trace w) @ [Fork ?p])"
    using q(3) same by (simp add: w1_def)
  have direct: "\<not> useVNC ?m1" by (simp add: setVNCMode_def)
  have result: "boot_start e ?m isoOk w =
      (Ret True, ?m1, printLog ''INFO'' ''Machine started in full-screen mode!'' w1)"
    unfolding boot_start_def Let_def w0_def [symmetric] started using direct by simp
  show "fst (boot_start e ?m isoOk w) = Ret True"
    by (simp add: result)
  show "fst (snd (boot_start e ?m isoOk w)) = ?m1"
    by (simp add: result)
  show "proc_view (snd (snd (boot_start e ?m isoOk w))) =
           (children w @ [?p], Suc (nforks w), filter is_proc (trace w) @ [Fork ?p])"
    by (simp add: result pv1)
qed

lemma scenario_boot_direct:
  "\<exists>w. boot scenario_env (setVNCMode False ComputerVM) (fresh scenario_fs) =
          (Ret True, ComputerVM\<lparr>useVNC := False, qemuPid := 4001\<rparr>, w)
        \<and> proc_view w = ([4001], 1, [Fork 4001])"
proof -
  let ?m = "setVNCMode False ComputerVM"
  let ?w = "fresh scenario_fs"
  define w4 where "w4 = snd (snd (boot_libraries scenario_env ?m (snd (snd (boot_components scenario_env ?m ?w)))))"
  have d: "fs_exists ?w ''./devices/disk/disk.qcow2''"
    by (simp add: fs_exists_def fresh_def scenario_fs_def)
  have reach: "boot scenario_env ?m ?w =
      boot_start scenario_env ?m (fst (findISO scenario_env ComputerVM ?w) \<noteq> []) w4"
    unfolding w4_def using d by (intro boot_reaches_start) simp_all
  have pv: "proc_view w4 = proc_view ?w"
    by (simp add: w4_def)
  then have v4: "children w4 = []" "nforks w4 = 0" "filter is_proc (trace w4) = []"
    by (simp_all add: proc_view_def fresh_def)
  have f1: "0 < fork_ret scenario_env (nforks w4)"
    by (simp add: v4 scenario_env_def)
  note r = boot_start_direct [OF f1, of "fst (findISO scenario_env ComputerVM ?w) \<noteq> []"]
  define w5 where "w5 = snd (snd (boot scenario_env ?m ?w))"
  have pid: "fork_ret scenario_env 0 = 4001"
    by (simp add: scenario_env_def)
  have b: "boot scenario_env ?m ?w = (Ret True, ComputerVM\<lparr>useVNC := False, qemuPid := 4001\<rparr>, w5)"
    using r(1,2) unfolding reach [symmetric] v4 pid
    by (cases "boot scenario_env ?m ?w") (simp add: w5_def setVNCMode_def)
  have "proc_view w5 = ([4001], 1, [Fork 4001])"
    using r(3) unfolding reach [symmetric] v4 pid by (simp add: w5_def)
  with b show ?thesis by blast
qed

lemma scenario_boot_bridged:
  "\<exists>w. boot scenario_env (setVNCMode True ComputerVM) (fresh scenario_fs) =
          (Ret True, ComputerVM\<lparr>qemuPid := 4001, websockifyPid := 4002\<rparr>, w)
        \<and> proc_view w = ([4001, 4002], 2, [Fork 4001, Fork 4002])"
proof -
  from scenario_running obtain w where
    m: "main scenario_env [''computer''] (fresh scenario_fs) =
          Running (ComputerVM\<lparr>qemuPid := 4001, websockifyPid := 4002\<rparr>) w"
    and pv: "proc_view w = ([4001, 4002], 2, [Fork 4001, Fork 4002])"
    by blast
  have mode: "scan_args 1 [''computer''] = False"
    by (simp add: scan_args_iff)
  from m have "boot scenario_env (setVNCMode True ComputerVM) (fresh scenario_fs) =
      (Ret True, ComputerVM\<lparr>qemuPid := 4001, websockifyPid := 4002\<rparr>, w)"
    unfolding main_def Let_def mode
    by (cases "boot scenario_env (setVNCMode True ComputerVM) (fresh scenario_fs)")
       (simp split: ctl.splits bool.splits)
  with pv show ?thesis by blast
qed

text \<open>
  C10. \<^verbatim>\<open>main\<close> boots the machine in direct full-screen mode exactly when one of the
  arguments after the program name is the string \<^verbatim>\<open>--no-vnc\<close>, and in bridged mode
  otherwise: what \<^verbatim>\<open>main\<close> does is what \<^verbatim>\<open>boot\<close> does on the constructor's object with
  the display bridged exactly when no argument is that string, and the object of a
  running program has that mode. Two command lines that agree on the presence of the
  flag run the same way, so every other argument is ignored.
\<close>

theorem no_vnc_flag:
  "main e argv w =
     (case boot e (setVNCMode (''--no-vnc'' \<notin> set (drop 1 argv)) ComputerVM) w of
        (Ret True, m, w') \<Rightarrow> Running m w'
      | (Ret False, m, w') \<Rightarrow>
          Terminated 1 (emit (Stderr ''[ERROR] Failed to boot virtual machine!'') w')
      | (Gone, m, w') \<Rightarrow> Child w')
   \<and> (case main e argv w of
         Running m w' \<Rightarrow> useVNC m = (''--no-vnc'' \<notin> set (drop 1 argv))
       | _ \<Rightarrow> True)
   \<and> scan_args 1 argv = (''--no-vnc'' \<in> set (drop 1 argv))
   \<and> ((''--no-vnc'' \<in> set (drop 1 argv)) = (''--no-vnc'' \<in> set (drop 1 argv'))
        \<longrightarrow> main e argv w = main e argv' w)"
proof -
  let ?m = "setVNCMode (''--no-vnc'' \<notin> set (drop 1 argv)) ComputerVM"
  have found: "scan_args 1 argv = (''--no-vnc'' \<in> set (drop 1 argv))"
    by (rule scan_args_iff)
  have boots: "main e argv w =
     (case boot e ?m w of
        (Ret True, m, w') \<Rightarrow> Running m w'
      | (Ret False, m, w') \<Rightarrow>
          Terminated 1 (emit (Stderr ''[ERROR] Failed to boot virtual machine!'') w')
      | (Gone, m, w') \<Rightarrow> Child w')"
    unfolding main_def Let_def found by simp
  have mode: "case main e argv w of
         Running m w' \<Rightarrow> useVNC m = (''--no-vnc'' \<notin> set (drop 1 argv))
       | _ \<Rightarrow> True"
  proof -
    obtain r m' w' where b: "boot e ?m w = (r, m', w')"
      by (cases "boot e ?m w")
    with useVNC_boot [of e ?m w] have "useVNC m' = (''--no-vnc'' \<notin> set (drop 1 argv))"
      by simp
    then show ?thesis
      unfolding boots b by (simp split: ctl.splits bool.splits)
  qed
  have ignored: "main e argv w = main e argv' w"
    if "(''--no-vnc'' \<in> set (drop 1 argv)) = (''--no-vnc'' \<in> set (drop 1 argv'))"
  proof -
    from that have "scan_args 1 argv = scan_args 1 argv'"
      by (simp add: scan_args_iff)
    then show ?thesis
      by (simp add: main_def)
  qed
  from boots mode found ignored show ?thesis by blast
qed

theorem no_vnc_flag_witness:
  "(case main scenario_env [''computer'', ''--verbose'', ''--no-vnc'', ''x''] (fresh scenario_fs) of
      Running m w \<Rightarrow>
        \<not> useVNC m \<and> qemuPid m = 4001 \<and> websockifyPid m = - 1 \<and> children w = [4001]
    | _ \<Rightarrow> False)
   \<and> (case main scenario_env [''--no-vnc'', ''--NO-VNC'', ''--no-vnc=1''] (fresh scenario_fs) of
        Running m w \<Rightarrow>
          useVNC m \<and> qemuPid m = 4001 \<and> websockifyPid m = 4002 \<and> children w = [4001, 4002]
      | _ \<Rightarrow> False)
   \<and> scan_args 1 [''computer'', ''--verbose'', ''--no-vnc'', ''x'']
   \<and> \<not> scan_args 1 [''--no-vnc'', ''--NO-VNC'', ''--no-vnc=1'']"
proof -
  from scenario_boot_direct obtain wd where
    d: "boot scenario_env (setVNCMode False ComputerVM) (fresh scenario_fs) =
          (Ret True, ComputerVM\<lparr>useVNC := False, qemuPid := 4001\<rparr>, wd)"
    and pd: "proc_view wd = ([4001], 1, [Fork 4001])"
    by blast
  from scenario_boot_bridged obtain wb where
    b: "boot scenario_env (setVNCMode True ComputerVM) (fresh scenario_fs) =
          (Ret True, ComputerVM\<lparr>qemuPid := 4001, websockifyPid := 4002\<rparr>, wb)"
    and pb: "proc_view wb = ([4001, 4002], 2, [Fork 4001, Fork 4002])"
    by blast
  from pd pb have c: "children wd = [4001]" "children wb = [4001, 4002]"
    by (simp_all add: proc_view_def)
  from no_vnc_flag [of scenario_env "[''computer'', ''--verbose'', ''--no-vnc'', ''x'']"
                       "fresh scenario_fs"]
       no_vnc_flag [of scenario_env "[''--no-vnc'', ''--NO-VNC'', ''--no-vnc=1'']"
                       "fresh scenario_fs"]
  moreover have "websockifyPid ComputerVM = - 1" "useVNC ComputerVM"
    by (simp_all add: ComputerVM_def)
  ultimately show ?thesis
    by (simp add: d b c)
qed

end
